theory Spec2Isabelle
  imports Main "HOL-Library.Sublist" "HOL-Library.AList"
begin

section \<open>Common types\<close>

text \<open>
  Go's \<open>time.Time\<close> and \<open>time.Duration\<close> are modelled as integers counting
  nanoseconds (a duration is an \<open>int64\<close> of nanoseconds in Go). Go's \<open>int\<close> is
  modelled as \<open>int\<close>; the counters below stay far from the 64-bit range. A Go
  \<open>string\<close> and a \<open>[]byte\<close> are byte sequences, modelled as \<open>string\<close>.
\<close>

type_synonym time = int
type_synonym duration = int
type_synonym guid = string

text \<open>
  A \<open>time.Time\<close> also carries a zone, which does not change the instant but does
  change the text the value is written as. Where that text matters (a message's
  timestamp, which the store keeps as text), the value is a pair of the instant and the
  zone's offset in seconds east of UTC.
\<close>

type_synonym ztime = "time \<times> int"

definition millisecond :: duration where
  "millisecond = 1000000"

definition second :: duration where
  "second = 1000000000"

definition minute :: duration where
  "minute = 60 * second"

definition activePeerTimeout :: duration where
  "activePeerTimeout = 10 * minute"

text \<open>
  The verb \<open>%d\<close> of \<open>fmt.Sprintf\<close>: the decimal digits of an integer, with a minus
  sign for a negative one.
\<close>

definition digit_char :: "nat \<Rightarrow> char" where
  "digit_char d = ''0123456789'' ! d"

fun nat_digits :: "nat \<Rightarrow> string" where
  "nat_digits n =
     (if n < 10 then [digit_char n] else nat_digits (n div 10) @ [digit_char (n mod 10)])"

definition itoa :: "int \<Rightarrow> string" where
  "itoa i = (if i < 0 then CHR ''-'' # nat_digits (nat (- i)) else nat_digits (nat i))"

section \<open>Discovery: the adaptive scan interval\<close>

text \<open>
  \<open>discovery.Service.discover\<close> keeps three loop variables: \<open>currentInterval\<close>,
  \<open>lastPeerCount\<close> and \<open>consecutiveUnchanged\<close>. After every scan (the code after
  the label \<open>SCAN_DONE\<close>) they are updated from \<open>foundPeers\<close>, the number of peers
  first seen in this scan, and \<open>currentPeerCount = len(s.peers)\<close>.
\<close>

definition baseInterval :: duration where
  "baseInterval = 2 * second"

definition maxInterval :: duration where
  "maxInterval = 15 * second"

definition maxConsecutiveUnchanged :: int where
  "maxConsecutiveUnchanged = 3"

record scan_state =
  currentInterval :: duration
  lastPeerCount :: int
  consecutiveUnchanged :: int

definition scan_init :: scan_state where
  "scan_init = \<lparr>currentInterval = baseInterval, lastPeerCount = 0, consecutiveUnchanged = 0\<rparr>"

text \<open>
  \<open>time.Duration(float64(currentInterval) * 1.25)\<close>: the product is exact in a
  \<open>float64\<close> for every duration below \<open>2^50\<close> nanoseconds (the interval never
  exceeds 15 s, about \<open>2^34\<close>), and the conversion back truncates towards zero.
\<close>

definition times_1_25 :: "duration \<Rightarrow> duration" where
  "times_1_25 d = (if 0 \<le> d then (5 * d) div 4 else - ((5 * (- d)) div 4))"

definition scan_done :: "scan_state \<Rightarrow> int \<Rightarrow> int \<Rightarrow> scan_state" where
  "scan_done s foundPeers currentPeerCount =
     (let s1 =
        (if foundPeers = 0 \<and> currentPeerCount = lastPeerCount s then
           (let c = consecutiveUnchanged s + 1 in
            if c \<ge> maxConsecutiveUnchanged then
              (let i = times_1_25 (currentInterval s) in
               s\<lparr>currentInterval := (if i > maxInterval then maxInterval else i),
                 consecutiveUnchanged := 0\<rparr>)
            else s\<lparr>consecutiveUnchanged := c\<rparr>)
         else s\<lparr>currentInterval := baseInterval, consecutiveUnchanged := 0\<rparr>)
      in s1\<lparr>lastPeerCount := currentPeerCount\<rparr>)"

text \<open>The loop over successive scans; each scan contributes \<open>(foundPeers, currentPeerCount)\<close>.\<close>

fun scans :: "scan_state \<Rightarrow> (int \<times> int) list \<Rightarrow> scan_state" where
  "scans s [] = s"
| "scans s ((found, cnt) # rest) = scans (scan_done s found cnt) rest"


lemma scan_done_bounds:
  assumes "baseInterval \<le> currentInterval s" "currentInterval s \<le> maxInterval"
    "0 \<le> consecutiveUnchanged s" "consecutiveUnchanged s < 3"
  shows "baseInterval \<le> currentInterval (scan_done s f c)
       \<and> currentInterval (scan_done s f c) \<le> maxInterval
       \<and> 0 \<le> consecutiveUnchanged (scan_done s f c)
       \<and> consecutiveUnchanged (scan_done s f c) < 3"
  using assms
  by (auto simp: scan_done_def Let_def times_1_25_def maxConsecutiveUnchanged_def
      baseInterval_def maxInterval_def second_def)

text \<open>Every state the loop reaches keeps the interval between 2 s and 15 s.\<close>

lemma scans_bounds:
  assumes "baseInterval \<le> currentInterval s" "currentInterval s \<le> maxInterval"
    "0 \<le> consecutiveUnchanged s" "consecutiveUnchanged s < 3"
  shows "baseInterval \<le> currentInterval (scans s obs)
       \<and> currentInterval (scans s obs) \<le> maxInterval
       \<and> 0 \<le> consecutiveUnchanged (scans s obs)
       \<and> consecutiveUnchanged (scans s obs) < 3"
  using assms
proof (induction obs arbitrary: s)
  case Nil
  then show ?case by simp
next
  case (Cons a obs)
  obtain f c where a: "a = (f, c)" by (cases a)
  from scan_done_bounds [OF Cons.prems, of f c] Cons.IH [of "scan_done s f c"]
  show ?case by (simp add: a)
qed

lemma scans_init_bounds:
  "2 * second \<le> currentInterval (scans scan_init obs)
   \<and> currentInterval (scans scan_init obs) \<le> 15 * second"
  using scans_bounds [of scan_init obs]
  by (simp add: scan_init_def baseInterval_def maxInterval_def second_def)



section \<open>The store (package db)\<close>

text \<open>
  The SQLite tables \<open>messages\<close> and \<open>peers\<close> of \<open>InitSchema\<close>, with the columns
  the modelled operations read or write. \<open>messages.id\<close> is the \<open>INTEGER PRIMARY KEY\<close>
  (the rowid); \<open>messages.message_id\<close> is \<open>TEXT NOT NULL UNIQUE\<close>; \<open>peers.guid\<close> is
  \<open>UNIQUE\<close>, so the peers table is a map from GUID to row. The columns
  \<open>trust_level\<close>, \<open>group_name\<close>, \<open>created_at\<close> and \<open>updated_at\<close> of \<open>peers\<close>
  are written by no modelled operation and are left out. The store is taken to be
  available: the only statement failures modelled are constraint violations.
\<close>

record message_row =
  m_id :: int
  m_message_id :: string
  m_sender_guid :: string
  m_receiver_guid :: string
  m_content :: string
  m_type :: string
  m_scope :: string
  m_created_at :: ztime
  m_source_ip :: string

record peer_row =
  p_username :: string
  p_public_key :: string
  p_ip_address :: string
  p_port :: int
  p_last_seen :: time

record DB =
  messages_tbl :: "message_row list"
  peers_tbl :: "guid \<rightharpoonup> peer_row"

datatype db_error = UniqueViolation | PeerNotFound | SliceBoundsPanic

subsection \<open>Peers table\<close>

text \<open>\<open>db.GetPeer\<close>: the row for a GUID, \<open>nil\<close> when there is none.\<close>

definition db_GetPeer :: "DB \<Rightarrow> guid \<Rightarrow> peer_row option" where
  "db_GetPeer db g = peers_tbl db g"

text \<open>
  \<open>db.DeletePeer\<close>: deletes the row; the error \<open>peer not found\<close> when no row was
  affected.
\<close>

definition db_DeletePeer :: "DB \<Rightarrow> guid \<Rightarrow> db_error option \<times> DB" where
  "db_DeletePeer db g =
     (case peers_tbl db g of
        None \<Rightarrow> (Some PeerNotFound, db)
      | Some _ \<Rightarrow> (None, db\<lparr>peers_tbl := (peers_tbl db)(g := None)\<rparr>))"

text \<open>
  SQL \<open>length(X)\<close> of a text value counts the characters before the first NUL
  character, so \<open>length(X) > 0\<close> holds when the text is not empty and does not start
  with a NUL byte.
\<close>

definition sql_length_pos :: "string \<Rightarrow> bool" where
  "sql_length_pos x = (case x of [] \<Rightarrow> False | c # _ \<Rightarrow> c \<noteq> CHR 0x00)"

text \<open>
  The guard at the head of \<open>SavePeer\<close>: nothing is written when the stored row already
  has this address, port, name and key. The Go parameter \<open>publicKey []byte\<close> may be
  \<open>nil\<close>, modelled by \<open>None\<close>.
\<close>

definition SavePeer_unchanged ::
  "peer_row \<Rightarrow> string \<Rightarrow> int \<Rightarrow> string option \<Rightarrow> string \<Rightarrow> bool" where
  "SavePeer_unchanged existing ip port publicKey name =
     (p_ip_address existing = ip \<and> p_port existing = port \<and> p_username existing = name \<and>
      (case publicKey of
         None \<Rightarrow> length (p_public_key existing) = 0
       | Some k \<Rightarrow> k = p_public_key existing))"

text \<open>
  The statement \<open>INSERT ... ON CONFLICT(guid) DO UPDATE SET ...\<close> with the values
  bound by \<open>SavePeer\<close>: \<open>name\<close> and \<open>pubKeyStr\<close> are the values after the Go code
  has replaced an empty name and a nil key.
\<close>

definition upsert_peer ::
  "peer_row option \<Rightarrow> string \<Rightarrow> string \<Rightarrow> string \<Rightarrow> int \<Rightarrow> time \<Rightarrow> peer_row" where
  "upsert_peer existing name pubKeyStr ip port now =
     (case existing of
        None \<Rightarrow> \<lparr>p_username = name, p_public_key = pubKeyStr, p_ip_address = ip,
                 p_port = port, p_last_seen = now\<rparr>
      | Some e \<Rightarrow> \<lparr>p_username = (if name \<noteq> [] then name else p_username e),
                   p_public_key = (if sql_length_pos pubKeyStr then pubKeyStr else p_public_key e),
                   p_ip_address = ip, p_port = port, p_last_seen = now\<rparr>)"

text \<open>
  \<open>db.SavePeer(guid, ip, port, publicKey, name)\<close> at clock reading \<open>now\<close>. The
  expression \<open>guid[:8]\<close> panics when the GUID has fewer than 8 bytes.
\<close>

definition SavePeer ::
  "time \<Rightarrow> guid \<Rightarrow> string \<Rightarrow> int \<Rightarrow> string option \<Rightarrow> string \<Rightarrow> DB \<Rightarrow> db_error + DB" where
  "SavePeer now g ip port publicKey name db =
     (let existing = db_GetPeer db g in
      if (case existing of None \<Rightarrow> False
          | Some e \<Rightarrow> SavePeer_unchanged e ip port publicKey name)
      then Inr db
      else if name = [] \<and> length g < 8 then Inl SliceBoundsPanic
      else
        (let name' = (if name = [] then ''Peer-'' @ take 8 g else name);
             pubKeyStr = (case publicKey of None \<Rightarrow> [] | Some k \<Rightarrow> k)
         in Inr (db\<lparr>peers_tbl :=
                    (peers_tbl db)(g \<mapsto> upsert_peer existing name' pubKeyStr ip port now)\<rparr>)))"

subsection \<open>Messages table\<close>

text \<open>
  \<open>db.SaveMessage\<close>: a plain \<open>INSERT\<close>. It fails on the \<open>UNIQUE\<close> constraint of
  \<open>message_id\<close>; otherwise the new row gets the next rowid (one more than the largest
  in the table). Foreign keys are not enforced (SQLite's default). The column
  \<open>created_at\<close> receives the message's timestamp, which the driver writes as text in
  the zone the value carries; the row keeps the value, and the text is taken when rows
  are compared.
\<close>

definition next_rowid :: "message_row list \<Rightarrow> int" where
  "next_rowid rows = (if rows = [] then 1 else Max (set (map m_id rows)) + 1)"

definition db_SaveMessage ::
  "DB \<Rightarrow> string \<Rightarrow> string \<Rightarrow> string \<Rightarrow> string \<Rightarrow> string \<Rightarrow> string \<Rightarrow> ztime \<Rightarrow> string
    \<Rightarrow> db_error option \<times> DB" where
  "db_SaveMessage db mid sender receiver content ty scope ts sourceIP =
     (if mid \<in> set (map m_message_id (messages_tbl db)) then (Some UniqueViolation, db)
      else (None, db\<lparr>messages_tbl := messages_tbl db @
              [\<lparr>m_id = next_rowid (messages_tbl db), m_message_id = mid,
                m_sender_guid = sender, m_receiver_guid = receiver, m_content = content,
                m_type = ty, m_scope = scope, m_created_at = ts, m_source_ip = sourceIP\<rparr>]\<rparr>))"

text \<open>
  \<open>ORDER BY key DESC\<close>: the rows by descending key, rows of equal key in the order
  they were inserted in. Each row, in insertion order, is placed before the first row
  of smaller key.
\<close>

fun insert_desc :: "('a \<Rightarrow> 'k::linorder) \<Rightarrow> 'a \<Rightarrow> 'a list \<Rightarrow> 'a list" where
  "insert_desc key x [] = [x]"
| "insert_desc key x (y # ys) =
     (if key y < key x then x # y # ys else y # insert_desc key x ys)"

definition order_by_desc :: "('a \<Rightarrow> 'k::linorder) \<Rightarrow> 'a list \<Rightarrow> 'a list" where
  "order_by_desc key xs = foldl (\<lambda>acc x. insert_desc key x acc) [] xs"

definition sql_limit :: "int \<Rightarrow> 'a list \<Rightarrow> 'a list" where
  "sql_limit n xs = (if n < 0 then xs else take (nat n) xs)"

text \<open>
  \<open>db.GetMessages(guid, since, limit)\<close>: the rows addressed to or sent by \<open>guid\<close> or
  of scope broadcast, created after \<open>since\<close>, newest first, at most \<open>limit\<close> of them
  (a negative \<open>LIMIT\<close> means no limit). The column \<open>created_at\<close> and the bound value
  \<open>since\<close> are texts of the form \<open>2006-01-02 15:04:05.999999999-07:00\<close>, and SQLite
  compares and orders them as texts, not as instants. \<open>stamp\<close> is that rendering of
  a time value, into any linearly ordered type: the function is a parameter, and every
  statement below holds for each rendering.
\<close>

definition selected :: "(ztime \<Rightarrow> 'k::linorder) \<Rightarrow> guid \<Rightarrow> ztime \<Rightarrow> message_row \<Rightarrow> bool" where
  "selected stamp g since r =
     ((m_receiver_guid r = g \<or> m_sender_guid r = g \<or> m_scope r = ''broadcast'')
      \<and> stamp (m_created_at r) > stamp since)"

definition db_GetMessages ::
  "(ztime \<Rightarrow> 'k::linorder) \<Rightarrow> DB \<Rightarrow> guid \<Rightarrow> ztime \<Rightarrow> int \<Rightarrow> message_row list" where
  "db_GetMessages stamp db g since limit =
     sql_limit limit
       (order_by_desc (\<lambda>r. stamp (m_created_at r))
          (filter (selected stamp g since) (messages_tbl db)))"

text \<open>
  The ordering keeps every row, puts no row of smaller key before one of larger key,
  and keeps rows of equal key in the order they had.
\<close>

lemma length_insert_desc: "length (insert_desc key x xs) = Suc (length xs)"
  by (induction xs) auto

lemma set_insert_desc: "set (insert_desc key x xs) = insert x (set xs)"
  by (induction xs) auto

lemma sorted_insert_desc:
  "sorted_wrt (\<lambda>a b. key a \<ge> key b) xs \<Longrightarrow>
   sorted_wrt (\<lambda>a b. key a \<ge> key b) (insert_desc key x xs)"
  by (induction xs) (auto simp: set_insert_desc)

lemma filter_insert_desc:
  assumes "sorted_wrt (\<lambda>a b. key a \<ge> key b) xs"
  shows "filter (\<lambda>y. key y = k) (insert_desc key x xs) =
     (if key x = k then filter (\<lambda>y. key y = k) xs @ [x] else filter (\<lambda>y. key y = k) xs)"
  using assms
proof (induction xs)
  case Nil
  then show ?case by simp
next
  case (Cons y ys)
  show ?case
  proof (cases "key y < key x")
    case True
    with Cons.prems have "\<forall>z \<in> set (y # ys). key z < key x" by auto
    then have "filter (\<lambda>z. key z = key x) (y # ys) = []"
      by (auto simp: filter_empty_conv)
    with True show ?thesis by auto
  next
    case False
    with Cons show ?thesis by auto
  qed
qed

lemma order_by_desc_snoc:
  "order_by_desc key (xs @ [x]) = insert_desc key x (order_by_desc key xs)"
  by (simp add: order_by_desc_def)

lemma length_order_by_desc: "length (order_by_desc key xs) = length xs"
  by (induction xs rule: rev_induct)
     (simp_all add: order_by_desc_snoc length_insert_desc, simp add: order_by_desc_def)

lemma set_order_by_desc: "set (order_by_desc key xs) = set xs"
  by (induction xs rule: rev_induct)
     (simp_all add: order_by_desc_snoc set_insert_desc, simp add: order_by_desc_def)

lemma sorted_order_by_desc: "sorted_wrt (\<lambda>a b. key a \<ge> key b) (order_by_desc key xs)"
  by (induction xs rule: rev_induct)
     (simp_all add: order_by_desc_snoc sorted_insert_desc, simp add: order_by_desc_def)

lemma stable_order_by_desc:
  "filter (\<lambda>y. key y = k) (order_by_desc key xs) = filter (\<lambda>y. key y = k) xs"
proof (induction xs rule: rev_induct)
  case Nil
  then show ?case by (simp add: order_by_desc_def)
next
  case (snoc x xs)
  then show ?case
    by (simp add: order_by_desc_snoc filter_insert_desc [OF sorted_order_by_desc])
qed

lemma length_db_GetMessages:
  "0 \<le> limit \<Longrightarrow>
   length (db_GetMessages stamp db g since limit) =
     min (nat limit) (length (filter (selected stamp g since) (messages_tbl db)))"
  by (simp add: db_GetMessages_def sql_limit_def length_order_by_desc)

text \<open>
  Two facts of \<open>SavePeer\<close> that the amended statement of claim C10 leaves aside: an
  empty \<open>name\<close> is replaced by \<open>Peer-\<close> and the first 8 bytes of the GUID before the
  statement runs, so the \<open>ELSE username\<close> branch of the SQL is never taken and the
  stored username is overwritten; with a GUID shorter than 8 bytes the call panics.
\<close>

lemma SavePeer_empty_name_overwrites:
  "SavePeer 100 ''0123456789'' ''10.0.0.2'' 7331 None []
     \<lparr>messages_tbl = [],
      peers_tbl = [''0123456789'' \<mapsto> \<lparr>p_username = ''alice'', p_public_key = ''KEY'',
          p_ip_address = ''10.0.0.1'', p_port = 7331, p_last_seen = 5\<rparr>]\<rparr>
   = Inr \<lparr>messages_tbl = [],
      peers_tbl = [''0123456789'' \<mapsto> \<lparr>p_username = ''Peer-01234567'', p_public_key = ''KEY'',
          p_ip_address = ''10.0.0.2'', p_port = 7331, p_last_seen = 100\<rparr>]\<rparr>"
  by (simp add: SavePeer_def db_GetPeer_def SavePeer_unchanged_def upsert_peer_def
      sql_length_pos_def)

lemma SavePeer_short_guid_panics:
  "SavePeer 100 ''abc'' ''10.0.0.2'' 7331 None [] \<lparr>messages_tbl = [], peers_tbl = Map.empty\<rparr>
   = Inl SliceBoundsPanic"
  by (simp add: SavePeer_def db_GetPeer_def)




section \<open>HTTP requests and the localhost check\<close>

text \<open>
  The parts of \<open>http.Request\<close> the handlers read: the transport address
  \<open>RemoteAddr\<close> (set by Go's server to the peer's \<open>IP:port\<close>), the headers (keyed by
  their canonical names; \<open>Header.Get\<close> gives the first value, or the empty string) and
  the query parameters of the URL (\<open>URL.Query().Get\<close> likewise).
\<close>

record Request =
  RemoteAddr :: string
  Header :: "(string \<times> string) list"
  URL_Query :: "(string \<times> string) list"

definition Header_Get :: "Request \<Rightarrow> string \<Rightarrow> string" where
  "Header_Get r k = (case map_of (Header r) k of None \<Rightarrow> [] | Some v \<Rightarrow> v)"

definition Query_Get :: "Request \<Rightarrow> string \<Rightarrow> string" where
  "Query_Get r k = (case map_of (URL_Query r) k of None \<Rightarrow> [] | Some v \<Rightarrow> v)"

subsection \<open>\<open>net.SplitHostPort\<close> and \<open>net.JoinHostPort\<close> of Go's standard library\<close>

primrec IndexByte :: "string \<Rightarrow> char \<Rightarrow> nat option" where
  "IndexByte [] c = None"
| "IndexByte (x # xs) c = (if x = c then Some 0 else map_option Suc (IndexByte xs c))"

definition LastIndexByte :: "string \<Rightarrow> char \<Rightarrow> nat option" where
  "LastIndexByte s c = map_option (\<lambda>j. length s - 1 - j) (IndexByte (rev s) c)"

text \<open>
  The last two checks of \<open>SplitHostPort\<close> (no \<open>[\<close> from position \<open>j\<close> on, no \<open>]\<close> from
  position \<open>k\<close> on) and its result.
\<close>

definition split_tail ::
  "string \<Rightarrow> string \<Rightarrow> nat \<Rightarrow> nat \<Rightarrow> nat \<Rightarrow> (string \<times> string) option" where
  "split_tail hostport host j k i =
     (if IndexByte (drop j hostport) (CHR ''['') \<noteq> None then None
      else if IndexByte (drop k hostport) (CHR '']'') \<noteq> None then None
      else Some (host, drop (i + 1) hostport))"

text \<open>\<open>None\<close> stands for each of the function's \<open>AddrError\<close> returns.\<close>

definition SplitHostPort :: "string \<Rightarrow> (string \<times> string) option" where
  "SplitHostPort hostport =
     (case LastIndexByte hostport (CHR '':'') of
        None \<Rightarrow> None
      | Some i \<Rightarrow>
          if hd hostport = CHR ''['' then
            (case IndexByte hostport (CHR '']'') of
               None \<Rightarrow> None
             | Some e \<Rightarrow>
                 if e + 1 = length hostport then None
                 else if e + 1 = i then
                   split_tail hostport (take (e - 1) (drop 1 hostport)) 1 (e + 1) i
                 else None)
          else
            (let host = take i hostport in
             if IndexByte host (CHR '':'') \<noteq> None then None
             else split_tail hostport host 0 0 i))"

definition JoinHostPort :: "string \<Rightarrow> string \<Rightarrow> string" where
  "JoinHostPort host port =
     (if CHR '':'' \<in> set host
      then ''['' @ host @ '']:'' @ port
      else host @ '':'' @ port)"

subsection \<open>\<open>verifyLocalhost\<close> (package websocket) and \<open>verifyClientIP\<close> (package clientapi)\<close>

text \<open>The two functions have the same body in the source.\<close>

definition client_ip :: "Request \<Rightarrow> string" where
  "client_ip r =
     (let forwardedFor = Header_Get r ''X-Forwarded-For'' in
      if forwardedFor \<noteq> [] then forwardedFor else RemoteAddr r)"

definition host_of :: "string \<Rightarrow> string" where
  "host_of ip = (case SplitHostPort ip of None \<Rightarrow> ip | Some (host, port) \<Rightarrow> host)"

definition is_localhost :: "string \<Rightarrow> bool" where
  "is_localhost host = (host = ''127.0.0.1'' \<or> host = ''::1'' \<or> host = ''localhost'')"

definition verifyLocalhost :: "Request \<Rightarrow> bool" where
  "verifyLocalhost r = is_localhost (host_of (client_ip r))"

definition verifyClientIP :: "Request \<Rightarrow> bool" where
  "verifyClientIP r = is_localhost (host_of (client_ip r))"

lemma IndexByte_None: "IndexByte s c = None \<longleftrightarrow> c \<notin> set s"
  by (induction s) auto

lemma IndexByte_first: "c \<notin> set a \<Longrightarrow> IndexByte (a @ c # b) c = Some (length a)"
  by (induction a) auto

lemma LastIndexByte_last: "c \<notin> set b \<Longrightarrow> LastIndexByte (a @ c # b) c = Some (length a)"
  using IndexByte_first [of c "rev b" "rev a"]
  by (simp add: LastIndexByte_def)

text \<open>
  Splitting undoes joining, for a host without brackets and a port without colon or
  bracket: the form of every \<open>RemoteAddr\<close> that Go's server sets.
\<close>

lemma SplitHostPort_JoinHostPort:
  assumes "CHR ''['' \<notin> set host" "CHR '']'' \<notin> set host"
    "CHR '':'' \<notin> set port" "CHR ''['' \<notin> set port" "CHR '']'' \<notin> set port"
  shows "SplitHostPort (JoinHostPort host port) = Some (host, port)"
proof (cases "CHR '':'' \<in> set host")
  case True
  let ?hp = "''['' @ host @ '']:'' @ port"
  have j: "JoinHostPort host port = ?hp" using True by (simp add: JoinHostPort_def)
  have li: "LastIndexByte ?hp (CHR '':'') = Some (length host + 2)"
    using LastIndexByte_last [of "CHR '':''" port "''['' @ host @ '']''"] assms by simp
  have ie: "IndexByte ?hp (CHR '']'') = Some (length host + 1)"
    using IndexByte_first [of "CHR '']''" "''['' @ host" "'':'' @ port"] assms by simp
  show ?thesis
    unfolding j SplitHostPort_def li ie
    using assms by (simp add: split_tail_def IndexByte_None)
next
  case False
  let ?hp = "host @ '':'' @ port"
  have j: "JoinHostPort host port = ?hp" using False by (simp add: JoinHostPort_def)
  have li: "LastIndexByte ?hp (CHR '':'') = Some (length host)"
    using LastIndexByte_last [of "CHR '':''" port host] assms by simp
  have hd: "hd ?hp \<noteq> CHR ''[''" using assms by (cases host) auto
  show ?thesis
    unfolding j SplitHostPort_def li
    using assms hd False by (simp add: split_tail_def IndexByte_None)
qed

section \<open>The event bus: admission of a session (package websocket)\<close>

text \<open>\<open>upgrader.CheckOrigin\<close>.\<close>

definition CheckOrigin :: "Request \<Rightarrow> bool" where
  "CheckOrigin r =
     (if \<not> verifyLocalhost r then False
      else
        (let origin = Header_Get r ''Origin'' in
         if origin = [] then False
         else prefix ''https://localhost:'' origin \<or> prefix ''https://127.0.0.1:'' origin
            \<or> prefix ''http://localhost:'' origin \<or> prefix ''http://127.0.0.1:'' origin))"

text \<open>
  \<open>Manager.HandleConnection\<close>. \<open>upgrader.Upgrade\<close> (gorilla/websocket) succeeds when
  the protocol handshake is in order, summarised by the flag \<open>handshake_ok\<close>, and
  \<open>CheckOrigin\<close> accepts the request. An accepted session is added to the manager's
  connections with the request's \<open>RemoteAddr\<close> and a fresh id.
\<close>

record Connection =
  remoteAddr :: string
  conn_id :: string

datatype admission = Forbidden | UpgradeFailed | SessionAccepted

definition HandleConnection ::
  "bool \<Rightarrow> string \<Rightarrow> Request \<Rightarrow> Connection list \<Rightarrow> admission \<times> Connection list" where
  "HandleConnection handshake_ok new_id r connections =
     (if \<not> verifyLocalhost r then (Forbidden, connections)
      else if \<not> (handshake_ok \<and> CheckOrigin r) then (UpgradeFailed, connections)
      else (SessionAccepted, \<lparr>remoteAddr = RemoteAddr r, conn_id = new_id\<rparr> # connections))"


text \<open>
  Claim C3 on the code. The source says of \<open>verifyLocalhost\<close> that it checks that the
  request is coming from localhost, of \<open>CheckOrigin\<close> that it only allows connections
  from localhost, and answers a refused request with the text \<open>WebSocket connections
  only allowed from localhost\<close>. The server listens on every interface, and
  \<open>verifyLocalhost\<close> takes the client address from the request header
  \<open>X-Forwarded-For\<close> whenever the client sends one. So a request that arrives from
  203.0.113.9 with the headers \<open>X-Forwarded-For: 127.0.0.1\<close> and
  \<open>Origin: https://localhost:7331\<close> is accepted as a session, although the host of
  its transport address is not a loopback address.
\<close>

theorem HandleConnection_accepts_remote_client:
  "fst (HandleConnection True ''id-1''
          \<lparr>RemoteAddr = JoinHostPort ''203.0.113.9'' ''40000'',
           Header = [(''X-Forwarded-For'', ''127.0.0.1''), (''Origin'', ''https://localhost:7331'')],
           URL_Query = []\<rparr> []) = SessionAccepted
   \<and> host_of (JoinHostPort ''203.0.113.9'' ''40000'') = ''203.0.113.9''
   \<and> \<not> is_localhost ''203.0.113.9''"
proof -
  have "SplitHostPort ''127.0.0.1'' = None"
    by (simp add: SplitHostPort_def LastIndexByte_def)
  then have v: "verifyLocalhost
          \<lparr>RemoteAddr = JoinHostPort ''203.0.113.9'' ''40000'',
           Header = [(''X-Forwarded-For'', ''127.0.0.1''), (''Origin'', ''https://localhost:7331'')],
           URL_Query = []\<rparr>"
    by (simp add: verifyLocalhost_def client_ip_def Header_Get_def host_of_def is_localhost_def)
  have h: "host_of (JoinHostPort ''203.0.113.9'' ''40000'') = ''203.0.113.9''"
    using SplitHostPort_JoinHostPort [of "''203.0.113.9''" "''40000''"]
    by (simp add: host_of_def)
  show ?thesis
    using v h by (simp add: HandleConnection_def CheckOrigin_def Header_Get_def is_localhost_def)
qed

text \<open>
  Without the header the check does what the source says: a request whose transport
  address \<open>host:port\<close> has a host other than \<open>127.0.0.1\<close>, \<open>::1\<close> and \<open>localhost\<close>
  is refused with status 403, and the connections stay as they were.
\<close>

lemma HandleConnection_remote_forbidden:
  assumes "Header_Get r ''X-Forwarded-For'' = []" and "RemoteAddr r = JoinHostPort host port"
    and "CHR ''['' \<notin> set host" "CHR '']'' \<notin> set host"
    and "CHR '':'' \<notin> set port" "CHR ''['' \<notin> set port" "CHR '']'' \<notin> set port"
    and "\<not> is_localhost host"
  shows "HandleConnection handshake_ok new_id r conns = (Forbidden, conns)"
proof -
  from assms have "SplitHostPort (RemoteAddr r) = Some (host, port)"
    using SplitHostPort_JoinHostPort [of host port] by simp
  with assms have "\<not> verifyLocalhost r"
    by (simp add: verifyLocalhost_def client_ip_def host_of_def)
  then show ?thesis
    by (simp add: HandleConnection_def)
qed

lemma HandleConnection_direct_remote_refused:
  "HandleConnection True ''id-2''
          \<lparr>RemoteAddr = JoinHostPort ''203.0.113.9'' ''40000'',
           Header = [(''Origin'', ''https://localhost:7331'')], URL_Query = []\<rparr> []
       = (Forbidden, [])"
  by (rule HandleConnection_remote_forbidden [where host = "''203.0.113.9''" and port = "''40000''"])
     (simp_all add: Header_Get_def is_localhost_def)

section \<open>The client API: listing messages (package clientapi)\<close>

text \<open>
  \<open>messages.Message\<close>, and the conversion of a row as \<open>db.GetMessages\<close> scans it.
  The JSON object that \<open>HandleGetMessages\<close> writes for a message has the same seven
  fields.
\<close>

record Message =
  ID :: string
  SenderGUID :: string
  ReceiverGUID :: string
  Type :: string
  Scope :: string
  Content :: string
  Timestamp :: ztime

definition row_Message :: "message_row \<Rightarrow> Message" where
  "row_Message r =
     \<lparr>ID = m_message_id r, SenderGUID = m_sender_guid r, ReceiverGUID = m_receiver_guid r,
      Type = m_type r, Scope = m_scope r, Content = m_content r, Timestamp = m_created_at r\<rparr>"

record Handlers =
  h_db :: DB
  h_guid :: guid
  h_clientAPIKey :: string

definition verifyAPIKey :: "Handlers \<Rightarrow> Request \<Rightarrow> bool" where
  "verifyAPIKey h r = (Header_Get r ''X-Client-API-Key'' = h_clientAPIKey h)"

definition verifyClient :: "Handlers \<Rightarrow> Request \<Rightarrow> bool" where
  "verifyClient h r = (verifyAPIKey h r \<and> verifyClientIP r)"

text \<open>
  What a handler answers: an error status with its text, or the status 200 or 202 with a
  JSON body.
\<close>

datatype 'a response = HttpError int string | HttpOK 'a | HttpAccepted 'a

definition hour :: duration where
  "hour = 60 * minute"

text \<open>
  The value of \<open>since\<close> in \<open>Handlers.HandleGetMessages\<close> at clock reading \<open>now\<close>:
  the query parameter \<open>since\<close> read by \<open>time.Parse(time.RFC3339, _)\<close> (the parameter
  \<open>parse\<close>, with \<open>None\<close> for its error) when it is not empty, and the local time 24
  hours before \<open>now\<close> otherwise (\<open>local\<close> gives the offset of the local zone at an
  instant).
\<close>

definition since_value ::
  "(string \<Rightarrow> ztime option) \<Rightarrow> (time \<Rightarrow> int) \<Rightarrow> time \<Rightarrow> Request \<Rightarrow> ztime option" where
  "since_value parse local now r =
     (let sinceStr = Query_Get r ''since'' in
      if sinceStr \<noteq> [] then parse sinceStr
      else Some (now - 24 * hour, local (now - 24 * hour)))"

text \<open>
  \<open>Handlers.HandleGetMessages\<close>. The handler reads the query parameter \<open>since\<close> and
  no other, and passes the constant 100 as the limit.
\<close>

definition HandleGetMessages ::
  "(ztime \<Rightarrow> 'k::linorder) \<Rightarrow> (string \<Rightarrow> ztime option) \<Rightarrow> (time \<Rightarrow> int) \<Rightarrow> time
    \<Rightarrow> Handlers \<Rightarrow> Request \<Rightarrow> Message list response" where
  "HandleGetMessages stamp parse local now h r =
     (if \<not> verifyClient h r then HttpError 401 ''Unauthorized''
      else
        (case since_value parse local now r of
           None \<Rightarrow> HttpError 400 ''Invalid since parameter''
         | Some since \<Rightarrow>
             HttpOK (map row_Message (db_GetMessages stamp (h_db h) (h_guid h) since 100))))"

text \<open>Setting, replacing or removing \<open>limit\<close> leaves the parameter \<open>since\<close> as it was.\<close>

lemma map_of_filter_other:
  "k' \<noteq> k \<Longrightarrow> map_of (filter (\<lambda>kv. fst kv \<noteq> k') q) k = map_of q k"
  by (induction q) auto

lemma Query_Get_since_limit:
  "Query_Get (r\<lparr>URL_Query := (''limit'', v) # filter (\<lambda>kv. fst kv \<noteq> ''limit'') (URL_Query r)\<rparr>)
     ''since'' = Query_Get r ''since''"
  by (simp add: Query_Get_def map_of_filter_other)

lemma verifyClient_query: "verifyClient h (r\<lparr>URL_Query := q\<rparr>) = verifyClient h r"
  by (simp add: verifyClient_def verifyAPIKey_def verifyClientIP_def client_ip_def
      Header_Get_def Let_def)

lemma HandleGetMessages_since_only:
  assumes "Query_Get (r\<lparr>URL_Query := q\<rparr>) ''since'' = Query_Get r ''since''"
  shows "HandleGetMessages stamp parse local now h (r\<lparr>URL_Query := q\<rparr>)
       = HandleGetMessages stamp parse local now h r"
  using assms by (simp add: HandleGetMessages_def since_value_def verifyClient_query)

text \<open>
  Claim C9. A request that fails the client check is answered with status 401, and one
  whose \<open>since\<close> the parser rejects with status 400. For any other request the
  response is the store's answer at the limit 100: it lists, newest first, the messages
  of the rows that the query selects (addressed to or sent by this node or broadcast,
  and created after \<open>since\<close>), all of them when there are at most 100 and the first
  100 otherwise, so its length is the smaller of 100 and the number of selected rows.
  No response lists more than 100 messages. The response to a request stays the same
  when its query parameter \<open>limit\<close> is set to any value, and more generally when the
  query is replaced by any other with the same \<open>since\<close>.
\<close>

theorem HandleGetMessages_fixed_limit:
  "(verifyClient h r \<and> since_value parse local now r = Some since \<longrightarrow>
      HandleGetMessages stamp parse local now h r =
        HttpOK (map row_Message
          (take 100 (order_by_desc (\<lambda>row. stamp (m_created_at row))
             (filter (selected stamp (h_guid h) since) (messages_tbl (h_db h))))))
    \<and> (\<exists>msgs. HandleGetMessages stamp parse local now h r = HttpOK msgs
           \<and> length msgs =
               min 100 (length (filter (selected stamp (h_guid h) since)
                                  (messages_tbl (h_db h))))))
   \<and> (\<forall>msgs. HandleGetMessages stamp parse local now h r = HttpOK msgs \<longrightarrow>
          length msgs \<le> 100)
   \<and> (\<not> verifyClient h r \<longrightarrow>
          HandleGetMessages stamp parse local now h r = HttpError 401 ''Unauthorized'')
   \<and> (verifyClient h r \<and> since_value parse local now r = None \<longrightarrow>
          HandleGetMessages stamp parse local now h r
          = HttpError 400 ''Invalid since parameter'')
   \<and> HandleGetMessages stamp parse local now h
        (r\<lparr>URL_Query := (''limit'', v) # filter (\<lambda>kv. fst kv \<noteq> ''limit'') (URL_Query r)\<rparr>)
      = HandleGetMessages stamp parse local now h r
   \<and> (Query_Get (r\<lparr>URL_Query := q\<rparr>) ''since'' = Query_Get r ''since'' \<longrightarrow>
        HandleGetMessages stamp parse local now h (r\<lparr>URL_Query := q\<rparr>)
        = HandleGetMessages stamp parse local now h r)"
proof (intro conjI impI allI)
  assume a: "verifyClient h r \<and> since_value parse local now r = Some since"
  then show eq: "HandleGetMessages stamp parse local now h r =
        HttpOK (map row_Message
          (take 100 (order_by_desc (\<lambda>row. stamp (m_created_at row))
             (filter (selected stamp (h_guid h) since) (messages_tbl (h_db h))))))"
    by (simp add: HandleGetMessages_def db_GetMessages_def sql_limit_def)
  show "\<exists>msgs. HandleGetMessages stamp parse local now h r = HttpOK msgs
           \<and> length msgs =
               min 100 (length (filter (selected stamp (h_guid h) since)
                                  (messages_tbl (h_db h))))"
    unfolding eq by (simp add: length_order_by_desc)
next
  fix msgs
  assume "HandleGetMessages stamp parse local now h r = HttpOK msgs"
  then obtain s where "msgs = map row_Message (db_GetMessages stamp (h_db h) (h_guid h) s 100)"
    by (auto simp: HandleGetMessages_def split: if_splits option.splits)
  then show "length msgs \<le> 100"
    by (simp add: length_db_GetMessages)
next
  assume "\<not> verifyClient h r"
  then show "HandleGetMessages stamp parse local now h r = HttpError 401 ''Unauthorized''"
    by (simp add: HandleGetMessages_def)
next
  assume "verifyClient h r \<and> since_value parse local now r = None"
  then show "HandleGetMessages stamp parse local now h r
          = HttpError 400 ''Invalid since parameter''"
    by (simp add: HandleGetMessages_def)
next
  show "HandleGetMessages stamp parse local now h
        (r\<lparr>URL_Query := (''limit'', v) # filter (\<lambda>kv. fst kv \<noteq> ''limit'') (URL_Query r)\<rparr>)
      = HandleGetMessages stamp parse local now h r"
    by (rule HandleGetMessages_since_only) (rule Query_Get_since_limit)
next
  assume "Query_Get (r\<lparr>URL_Query := q\<rparr>) ''since'' = Query_Get r ''since''"
  then show "HandleGetMessages stamp parse local now h (r\<lparr>URL_Query := q\<rparr>)
      = HandleGetMessages stamp parse local now h r"
    by (rule HandleGetMessages_since_only)
qed

text \<open>
  A store with 103 broadcast rows created at seconds 1 to 103, in that order, and one
  private row between two other nodes; a request at second 2 of the second day without
  \<open>since\<close>, so that the rows created after second 2 are selected: 101 rows.
\<close>

definition row_at :: "nat \<Rightarrow> message_row" where
  "row_at i = \<lparr>m_id = int i, m_message_id = nat_digits i, m_sender_guid = ''peer-B-0001'',
     m_receiver_guid = [], m_content = ''hi'', m_type = ''text'', m_scope = ''broadcast'',
     m_created_at = (int i * second, 0), m_source_ip = ''10.0.0.2:40000''\<rparr>"

definition row_other :: message_row where
  "row_other = \<lparr>m_id = 104, m_message_id = ''other'', m_sender_guid = ''peer-B-0001'',
     m_receiver_guid = ''peer-C-0002'', m_content = ''psst'', m_type = ''text'',
     m_scope = ''private'', m_created_at = (50 * second, 0), m_source_ip = ''10.0.0.2:40000''\<rparr>"

definition store103 :: DB where
  "store103 = \<lparr>messages_tbl = map row_at [1..<104] @ [row_other], peers_tbl = Map.empty\<rparr>"

definition handlersC :: Handlers where
  "handlersC = \<lparr>h_db = store103, h_guid = ''me'', h_clientAPIKey = ''k''\<rparr>"

definition requestC :: Request where
  "requestC = \<lparr>RemoteAddr = ''127.0.0.1:5000'', Header = [(''X-Client-API-Key'', ''k'')],
       URL_Query = [(''limit'', ''5'')]\<rparr>"

theorem HandleGetMessages_fixed_limit_witness:
  "(case HandleGetMessages fst (\<lambda>s. None) (\<lambda>t. 0) (24 * hour + 2 * second) handlersC requestC of
      HttpOK msgs \<Rightarrow> length msgs = 100 \<and> map ID (take 2 msgs) = [''103'', ''102'']
    | HttpError code body \<Rightarrow> False)
   \<and> HandleGetMessages fst (\<lambda>s. None) (\<lambda>t. 0) (24 * hour + 2 * second) handlersC
        (requestC\<lparr>URL_Query := [(''limit'', ''500'')]\<rparr>)
      = HandleGetMessages fst (\<lambda>s. None) (\<lambda>t. 0) (24 * hour + 2 * second) handlersC requestC"
proof -
  let ?rows = "filter (selected fst ''me'' (2 * second, 0)) (messages_tbl store103)"
  have sp: "SplitHostPort ''127.0.0.1:5000'' = Some (''127.0.0.1'', ''5000'')"
    using SplitHostPort_JoinHostPort [of "''127.0.0.1''" "''5000''"]
    by (simp add: JoinHostPort_def)
  have v: "verifyClient handlersC requestC"
    using sp by (simp add: verifyClient_def verifyAPIKey_def verifyClientIP_def client_ip_def
        Header_Get_def host_of_def is_localhost_def handlersC_def requestC_def)
  have s: "since_value (\<lambda>s. None) (\<lambda>t. 0) (24 * hour + 2 * second) requestC
      = Some (2 * second, 0)"
    by (simp add: since_value_def Query_Get_def requestC_def)
  have q: "Query_Get (requestC\<lparr>URL_Query := [(''limit'', ''500'')]\<rparr>) ''since''
      = Query_Get requestC ''since''"
    by (simp add: Query_Get_def requestC_def)
  have n: "length ?rows = 101"
    by code_simp
  have top: "map m_message_id (take 2 (order_by_desc (\<lambda>row. fst (m_created_at row)) ?rows))
      = [''103'', ''102'']"
    by code_simp
  have ids: "map ID (take 2 (map row_Message (take 100 xs))) = map m_message_id (take 2 xs)"
    for xs
    by (simp add: take_map row_Message_def comp_def min_def)
  from HandleGetMessages_fixed_limit [of handlersC requestC "\<lambda>s. None" "\<lambda>t. 0"
      "24 * hour + 2 * second" "(2 * second, 0)" fst "''7''" "[(''limit'', ''500'')]"] v s q n top
  show ?thesis
    by (simp add: handlersC_def ids length_order_by_desc)
qed

section \<open>The node's peer state\<close>

text \<open>
  \<open>peers.Peer\<close> (the Peer Manager's record) and \<open>discovery.Peer\<close> (the discovery
  service's). The field \<open>IP\<close> of a discovery peer is a \<open>net.IP\<close>; the model keeps the
  text it is parsed from, since the parsed address only appears in the URLs of outgoing
  requests.
\<close>

record Peer =
  GUID :: guid
  Port :: int
  Name :: string
  IPAddress :: string
  LastSeen :: time

record dPeer =
  dGUID :: guid
  dPort :: int
  dIP :: string
  dPublicKey :: string
  dName :: string
  dLastSeen :: time

text \<open>\<open>messages.MessageDeliveryStatus\<close> and \<open>messages.MessageDeliveryReport\<close>.\<close>

record MessageDeliveryStatus =
  PeerGUID :: guid
  PeerName :: string
  Success :: bool
  Error :: string
  Time :: time

record MessageDeliveryReport =
  MessageID :: string
  TotalPeers :: int
  Succeeded :: int
  Failed :: int
  DeliveryTime :: time
  PeerStatuses :: "MessageDeliveryStatus list"
  Summary :: string

text \<open>
  What \<open>wsManager.Broadcast\<close> is called with: the \<open>type\<close> string and the content.
  One constructor per shape of content struct in the source, with its fields in the
  source's order:
  \<^item> \<open>WebMessageContent\<close>: a stored message shown to the UI
    (\<open>messages.WebMessage\<close>);
  \<^item> \<open>ServerWebMessageContent message sender_ip sender_port\<close>: the same with the
    two fields that \<open>server.WebMessage\<close> adds;
  \<^item> \<open>SystemMessageContent text time\<close>: the message synthesised when a peer goes
    offline (its \<open>ID\<close> is a fresh random UUID, not modelled);
  \<^item> \<open>DeliveryStatus message_id status details\<close>;
  \<^item> \<open>BroadcastStatus message_id status details total\<close>;
  \<^item> \<open>PrivateStatus message_id status details peer_guid\<close>;
  \<^item> \<open>DeliveryProgress message_id peer_guid peer_name success error succeeded failed total\<close>;
  \<^item> \<open>BroadcastFinal message_id status details succeeded failed total\<close> (its
    \<open>success_rate\<close>, the floating-point quotient of \<open>succeeded\<close> and \<open>total\<close>
    times 100, is left out);
  \<^item> \<open>PrivateFinal message_id status details peer_guid success error\<close>;
  \<^item> \<open>PrivateNotFound message_id status details peer_guid error\<close>;
  \<^item> \<open>PeerOffline guid name reason\<close>;
  \<^item> \<open>PeerUpdate\<close>: the change callback's \<open>peer\<close> event;
  \<^item> \<open>PeerDiscovered guid name ip_address port status\<close>;
  \<^item> \<open>PeerDiscoveryFailed guid ip error status\<close>.
\<close>

datatype content =
    WebMessageContent Message
  | ServerWebMessageContent Message string int
  | SystemMessageContent string time
  | DeliveryStatus string string string
  | BroadcastStatus string string string int
  | PrivateStatus string string string guid
  | DeliveryProgress string guid string bool string int int int
  | BroadcastFinal string string string int int int
  | PrivateFinal string string string guid bool string
  | PrivateNotFound string string string guid string
  | PeerOffline guid string string
  | PeerUpdate Peer
  | PeerDiscovered guid string string int string
  | PeerDiscoveryFailed guid string string string

type_synonym ws_event = "string \<times> content"

definition count_type :: "string \<Rightarrow> ws_event list \<Rightarrow> nat" where
  "count_type t evs = length (filter (\<lambda>e. fst e = t) evs)"

text \<open>
  The state shared by the Peer Manager, the discovery services and the message handler
  of one node: the configured port, the store, the Manager's map \<open>peers\<close>, the map
  \<open>peers\<close> of each discovery service and the handler's \<open>failedPeers\<close>. The Go
  maps of peers are association lists with one entry per GUID; Go leaves the order in
  which a map is iterated open, the model iterates in the order of first insertion.

  There are two discovery services. \<open>server.New\<close> makes one and hands it to the
  message handler, the peers handlers and the client API handlers; \<open>StartServer\<close>,
  which \<open>main\<close> calls, then makes a second one for the port it found, stores it in
  \<open>Server.discovery\<close> and starts it. So the service that scans the network and that
  \<open>Server.processMessage\<close> reads (\<open>disc_peers\<close>) is not the one the message
  handler holds (\<open>hdisc_peers\<close>), which is never started. Both write to the same
  store.
\<close>

record Node =
  node_guid :: guid
  node_port :: int
  node_db :: DB
  mgr_peers :: "(guid \<times> Peer) list"
  disc_peers :: "(guid \<times> dPeer) list"
  hdisc_peers :: "(guid \<times> dPeer) list"
  failedPeers :: "guid \<rightharpoonup> time"

subsection \<open>The Peer Manager (package peers)\<close>

definition Manager_GetPeers :: "Node \<Rightarrow> Peer list" where
  "Manager_GetPeers n = map snd (mgr_peers n)"

definition Manager_GetPeer :: "Node \<Rightarrow> guid \<Rightarrow> Peer option" where
  "Manager_GetPeer n g = map_of (mgr_peers n) g"

definition Manager_RemoveInactivePeer :: "guid \<Rightarrow> Node \<Rightarrow> Node" where
  "Manager_RemoveInactivePeer g n = n\<lparr>mgr_peers := AList.delete g (mgr_peers n)\<rparr>"

definition Manager_GetPeersLastSeenAfter :: "Node \<Rightarrow> time \<Rightarrow> Peer list" where
  "Manager_GetPeersLastSeenAfter n cutoff =
     filter (\<lambda>peer. LastSeen peer > cutoff) (map snd (mgr_peers n))"

text \<open>
  \<open>Manager.HandleUpdate\<close> at clock reading \<open>now\<close>. \<open>ip_ok\<close> says whether
  \<open>net.ParseIP(peer.IPAddress)\<close> is not nil; when it is nil the function returns before
  the store and the callback. An error of \<open>SavePeer\<close> is logged; its panic ends the
  call. The result lists the events of the change callback
  (\<open>Server.handlePeerUpdate\<close>).
\<close>

definition Manager_HandleUpdate ::
  "time \<Rightarrow> bool \<Rightarrow> Peer \<Rightarrow> Node \<Rightarrow> db_error + ws_event list \<times> Node" where
  "Manager_HandleUpdate now ip_ok peer0 n =
     (let peer = peer0\<lparr>LastSeen := now\<rparr>;
          n1 = n\<lparr>mgr_peers := AList.update (GUID peer) peer (mgr_peers n)\<rparr>
      in if \<not> ip_ok then Inr ([], n1)
         else
           (case SavePeer now (GUID peer) (IPAddress peer) (Port peer) None (Name peer)
                   (node_db n1) of
              Inl SliceBoundsPanic \<Rightarrow> Inl SliceBoundsPanic
            | Inl _ \<Rightarrow> Inr ([(''peer'', PeerUpdate peer)], n1)
            | Inr db' \<Rightarrow> Inr ([(''peer'', PeerUpdate peer)], n1\<lparr>node_db := db'\<rparr>)))"

subsection \<open>The discovery service's lookup (package discovery)\<close>

definition db_peer_to_dPeer :: "guid \<Rightarrow> peer_row \<Rightarrow> dPeer" where
  "db_peer_to_dPeer g dbPeer =
     \<lparr>dGUID = g, dPort = p_port dbPeer, dIP = p_ip_address dbPeer,
      dPublicKey = p_public_key dbPeer, dName = p_username dbPeer,
      dLastSeen = p_last_seen dbPeer\<rparr>"

text \<open>
  \<open>Service.GetPeer\<close> at clock reading \<open>now\<close>: the in-memory map first, then the
  store; a stored row seen within \<open>activePeerTimeout\<close> is cached in memory and
  returned, an older one is deleted (an error of the deletion is only logged).
\<close>

definition Service_GetPeer :: "time \<Rightarrow> Node \<Rightarrow> guid \<Rightarrow> dPeer option \<times> Node" where
  "Service_GetPeer now n g =
     (case map_of (disc_peers n) g of
        Some peer \<Rightarrow> (Some peer, n)
      | None \<Rightarrow>
          (case db_GetPeer (node_db n) g of
             None \<Rightarrow> (None, n)
           | Some dbPeer \<Rightarrow>
               if now - p_last_seen dbPeer > activePeerTimeout
               then (None, n\<lparr>node_db := snd (db_DeletePeer (node_db n) g)\<rparr>)
               else
                 (let peer = db_peer_to_dPeer g dbPeer
                  in (Some peer, n\<lparr>disc_peers := AList.update g peer (disc_peers n)\<rparr>))))"

text \<open>Concrete inputs used by the closed theorems below.\<close>

definition node0 :: Node where
  "node0 = \<lparr>node_guid = ''me'', node_port = 7331,
            node_db = \<lparr>messages_tbl = [], peers_tbl = Map.empty\<rparr>,
            mgr_peers = [], disc_peers = [], hdisc_peers = [], failedPeers = Map.empty\<rparr>"

definition peerB :: Peer where
  "peerB = \<lparr>GUID = ''peer-B-0001'', Port = 7331, Name = ''bob'', IPAddress = ''10.0.0.2'',
            LastSeen = 0\<rparr>"

definition rowB :: peer_row where
  "rowB = \<lparr>p_username = ''bob'', p_public_key = [], p_ip_address = ''10.0.0.2'',
           p_port = 7331, p_last_seen = 100\<rparr>"

text \<open>
  Claim C6 as stated fails for the Peer Manager: its \<open>GetPeer\<close> is a lookup in the
  in-memory map and nothing else. With an empty map and a row in the store that was
  seen at this very instant, it answers absent.
\<close>

theorem Manager_GetPeer_no_probe_counterexample:
  "Manager_GetPeer
     (node0\<lparr>node_db := \<lparr>messages_tbl = [], peers_tbl = [''peer-B-0001'' \<mapsto> rowB]\<rparr>\<rparr>)
     ''peer-B-0001'' = None
   \<and> map_option p_last_seen
       (db_GetPeer \<lparr>messages_tbl = [], peers_tbl = [''peer-B-0001'' \<mapsto> rowB]\<rparr> ''peer-B-0001'')
     = Some 100
   \<and> (100 :: int) - 100 \<le> activePeerTimeout"
  by (simp add: Manager_GetPeer_def db_GetPeer_def node0_def rowB_def activePeerTimeout_def
      minute_def second_def)

text \<open>
  Claim C6, amended. The Peer Manager's \<open>GetPeer\<close> answers from its in-memory map
  alone. The lookup that probes the store is the discovery service's \<open>GetPeer\<close>: for a
  GUID absent from the discovery service's in-memory map, it returns absent when the
  store has no row; when the store has a row whose \<open>last_seen\<close> is at most
  \<open>activePeerTimeout\<close> (10 minutes) old it returns that row as a peer and caches it in
  its map; and when the row is older it deletes the row, leaves every other row and its
  map as they were, and returns absent.
\<close>

theorem Service_GetPeer_lookup:
  assumes "map_of (disc_peers n) g = None"
  shows "Manager_GetPeer n g = map_of (mgr_peers n) g
       \<and> (db_GetPeer (node_db n) g = None \<longrightarrow> Service_GetPeer now n g = (None, n))
       \<and> (\<forall>row. db_GetPeer (node_db n) g = Some row \<longrightarrow>
             (now - p_last_seen row \<le> activePeerTimeout \<longrightarrow>
                Service_GetPeer now n g =
                  (Some (db_peer_to_dPeer g row),
                   n\<lparr>disc_peers := AList.update g (db_peer_to_dPeer g row) (disc_peers n)\<rparr>))
           \<and> (now - p_last_seen row > activePeerTimeout \<longrightarrow>
                fst (Service_GetPeer now n g) = None
              \<and> db_GetPeer (node_db (snd (Service_GetPeer now n g))) g = None
              \<and> (\<forall>g'. g' \<noteq> g \<longrightarrow>
                    db_GetPeer (node_db (snd (Service_GetPeer now n g))) g'
                    = db_GetPeer (node_db n) g')
              \<and> disc_peers (snd (Service_GetPeer now n g)) = disc_peers n))"
  using assms
  by (auto simp: Manager_GetPeer_def Service_GetPeer_def db_GetPeer_def db_DeletePeer_def Let_def)

theorem Service_GetPeer_lookup_witness:
  "fst (Service_GetPeer (100 + 10 * minute)
         (node0\<lparr>node_db := \<lparr>messages_tbl = [], peers_tbl = [''peer-B-0001'' \<mapsto> rowB]\<rparr>\<rparr>)
         ''peer-B-0001'') = Some (db_peer_to_dPeer ''peer-B-0001'' rowB)
   \<and> fst (Service_GetPeer (101 + 10 * minute)
         (node0\<lparr>node_db := \<lparr>messages_tbl = [], peers_tbl = [''peer-B-0001'' \<mapsto> rowB]\<rparr>\<rparr>)
         ''peer-B-0001'') = None
   \<and> db_GetPeer (node_db (snd (Service_GetPeer (101 + 10 * minute)
         (node0\<lparr>node_db := \<lparr>messages_tbl = [], peers_tbl = [''peer-B-0001'' \<mapsto> rowB]\<rparr>\<rparr>)
         ''peer-B-0001''))) ''peer-B-0001'' = None"
proof -
  let ?n = "node0\<lparr>node_db := \<lparr>messages_tbl = [], peers_tbl = [''peer-B-0001'' \<mapsto> rowB]\<rparr>\<rparr>"
  have a: "map_of (disc_peers ?n) ''peer-B-0001'' = None" by (simp add: node0_def)
  have r: "db_GetPeer (node_db ?n) ''peer-B-0001'' = Some rowB" by (simp add: db_GetPeer_def)
  have t1: "(100 + 10 * minute) - p_last_seen rowB \<le> activePeerTimeout"
    and t2: "(101 + 10 * minute) - p_last_seen rowB > activePeerTimeout"
    by (simp_all add: rowB_def activePeerTimeout_def)
  from Service_GetPeer_lookup [OF a, of "100 + 10 * minute"] r t1
  have one: "fst (Service_GetPeer (100 + 10 * minute) ?n ''peer-B-0001'')
      = Some (db_peer_to_dPeer ''peer-B-0001'' rowB)" by simp
  from Service_GetPeer_lookup [OF a, of "101 + 10 * minute"] r t2
  have two: "fst (Service_GetPeer (101 + 10 * minute) ?n ''peer-B-0001'') = None
     \<and> db_GetPeer (node_db (snd (Service_GetPeer (101 + 10 * minute) ?n ''peer-B-0001'')))
          ''peer-B-0001'' = None" by blast
  from one two show ?thesis by blast
qed

section \<open>The environment of a node\<close>

text \<open>
  What a call depends on beyond the node's state and the clock:
  \<^item> \<open>w_whoami msg peer\<close>: the answer to the request
    \<open>GET https://ip:port/api/v1/whoami\<close> that \<open>Service.GetPeerPublicKey\<close> makes
    while \<open>msg\<close> is forwarded to \<open>peer\<close>: the text of the error (no answer within 1.5
    seconds, or an answer that does not decode), or the GUID, the public key (\<open>None\<close> for
    nil) and the name that the answering node reports;
  \<^item> \<open>w_send msg peer\<close>: the outcome of the steps of a delivery that follow the key
    fetch (decoding and parsing the key, encrypting, marshalling, posting with the
    handler's timeout of 500 milliseconds, reading the status);
  \<^item> \<open>w_post_returns msg peer\<close>: whether the post of \<open>Server.forwardMessageToPeer\<close>,
    whose client has no timeout, ever returns;
  \<^item> \<open>w_probe ip port\<close>: the answer to the probe of \<open>discoverPeerFromMessage\<close>: the
    text of the error, or the GUID, name and port reported;
  \<^item> \<open>w_ParseIP text\<close>: \<open>net.ParseIP\<close> followed by \<open>String\<close>, \<open>None\<close> when the
    text is no address;
  \<^item> \<open>w_percent s t\<close>: the text that the verb \<open>%.1f\<close> gives for the floating-point
    number \<open>float64(s) / float64(t) * 100\<close>.
\<close>

datatype whoami_outcome = WhoamiFailed string | WhoamiInfo guid "string option" string

datatype send_outcome =
    PemDecodeError
  | KeyParseError string
  | EncryptError string
  | MarshalError string
  | PostError string
  | StatusNot202 int string
  | Accepted202

datatype probe_outcome = ProbeFailed string | ProbeInfo guid string int

record world =
  w_whoami :: "Message \<Rightarrow> dPeer \<Rightarrow> whoami_outcome"
  w_send :: "Message \<Rightarrow> dPeer \<Rightarrow> send_outcome"
  w_post_returns :: "Message \<Rightarrow> dPeer \<Rightarrow> bool"
  w_probe :: "string \<Rightarrow> int \<Rightarrow> probe_outcome"
  w_ParseIP :: "string \<Rightarrow> string option"
  w_percent :: "int \<Rightarrow> int \<Rightarrow> string"

definition IP_String :: "world \<Rightarrow> string \<Rightarrow> string" where
  "IP_String w ip = (case w_ParseIP w ip of None \<Rightarrow> ''<nil>'' | Some s \<Rightarrow> s)"

text \<open>
  The outcome of a call: it returns a value, or it stops without returning, by a panic
  or (a request without timeout that is never answered) by waiting for ever. Either way
  the outcome carries the events published up to that point, in order, and the state
  reached. An event is published when \<open>wsManager.Broadcast\<close> is called with it.
\<close>

datatype stop = GoPanic | NeverReturns

datatype 'a result = Returned 'a "ws_event list" Node | Stopped stop "ws_event list" Node

definition events_of :: "'a result \<Rightarrow> ws_event list" where
  "events_of r = (case r of Returned x evs n \<Rightarrow> evs | Stopped s evs n \<Rightarrow> evs)"

definition node_of :: "'a result \<Rightarrow> Node" where
  "node_of r = (case r of Returned x evs n \<Rightarrow> n | Stopped s evs n \<Rightarrow> n)"

text \<open>The events \<open>evs\<close>, published before a call with outcome \<open>r\<close>, put in front.\<close>

definition prepend_events :: "ws_event list \<Rightarrow> 'a result \<Rightarrow> 'a result" where
  "prepend_events evs r =
     (case r of
        Returned x evs' n \<Rightarrow> Returned x (evs @ evs') n
      | Stopped s evs' n \<Rightarrow> Stopped s (evs @ evs') n)"

text \<open>
  \<open>Manager.HandleUpdate\<close> with the environment's reading of the address and with its
  panic as an outcome (the Manager's map is written before the store is).
\<close>

definition HandleUpdate :: "world \<Rightarrow> time \<Rightarrow> Peer \<Rightarrow> Node \<Rightarrow> unit result" where
  "HandleUpdate w now peer n =
     (case Manager_HandleUpdate now (w_ParseIP w (IPAddress peer) \<noteq> None) peer n of
        Inl e \<Rightarrow>
          Stopped GoPanic []
            (n\<lparr>mgr_peers := AList.update (GUID peer) (peer\<lparr>LastSeen := now\<rparr>) (mgr_peers n)\<rparr>)
      | Inr (evs, n') \<Rightarrow> Returned () evs n')"

section \<open>The discovery services (package discovery)\<close>

datatype service = RunningService | HandlerService

definition service_peers :: "service \<Rightarrow> Node \<Rightarrow> (guid \<times> dPeer) list" where
  "service_peers s n = (case s of RunningService \<Rightarrow> disc_peers n | HandlerService \<Rightarrow> hdisc_peers n)"

definition set_service_peers :: "service \<Rightarrow> (guid \<times> dPeer) list \<Rightarrow> Node \<Rightarrow> Node" where
  "set_service_peers s ps n =
     (case s of RunningService \<Rightarrow> n\<lparr>disc_peers := ps\<rparr> | HandlerService \<Rightarrow> n\<lparr>hdisc_peers := ps\<rparr>)"

definition Service_GetPeers :: "service \<Rightarrow> Node \<Rightarrow> dPeer list" where
  "Service_GetPeers s n = map snd (service_peers s n)"

definition Service_RemoveInactivePeer :: "service \<Rightarrow> guid \<Rightarrow> Node \<Rightarrow> Node" where
  "Service_RemoveInactivePeer s g n = set_service_peers s (AList.delete g (service_peers s n)) n"

text \<open>
  \<open>Service.GetPeerPublicKey(peer)\<close> at clock reading \<open>now\<close>. When the answering node
  reports the peer's GUID, the service writes the reported name and key into its entry
  for the peer, if it has one, and saves the peer to the store with \<open>SavePeer\<close>, whose
  error is logged and whose panic ends the call.
\<close>

datatype key_result = KeyError string | KeyFetched "string option"

definition Service_GetPeerPublicKey ::
  "world \<Rightarrow> time \<Rightarrow> service \<Rightarrow> Message \<Rightarrow> dPeer \<Rightarrow> Node \<Rightarrow> key_result result" where
  "Service_GetPeerPublicKey w now s msg peer n =
     (case w_whoami w msg peer of
        WhoamiFailed e \<Rightarrow> Returned (KeyError e) [] n
      | WhoamiInfo g publicKey name \<Rightarrow>
          if g \<noteq> dGUID peer then Returned (KeyError ''GUID mismatch'') [] n
          else
            (let n1 = (case map_of (service_peers s n) (dGUID peer) of
                         None \<Rightarrow> n
                       | Some p \<Rightarrow>
                           set_service_peers s
                             (AList.update (dGUID peer)
                                (p\<lparr>dName := name,
                                   dPublicKey := (case publicKey of None \<Rightarrow> [] | Some k \<Rightarrow> k)\<rparr>)
                                (service_peers s n)) n)
             in case SavePeer now (dGUID peer) (IP_String w (dIP peer)) (dPort peer) publicKey
                       name (node_db n1) of
                  Inl SliceBoundsPanic \<Rightarrow> Stopped GoPanic [] n1
                | Inl _ \<Rightarrow> Returned (KeyFetched publicKey) [] n1
                | Inr db' \<Rightarrow> Returned (KeyFetched publicKey) [] (n1\<lparr>node_db := db'\<rparr>)))"

section \<open>The message pipeline (package messagehandler)\<close>

subsection \<open>Failure-driven eviction\<close>

text \<open>
  \<open>Handler.handleDeliveryFailure\<close> at clock reading \<open>now\<close> has two parts. The first
  loads the entry of the peer's GUID in \<open>failedPeers\<close> and returns when it is less than
  5 seconds old (\<open>recently_failed\<close>). The second (\<open>evict_peer\<close>) removes the peer from
  the handler's discovery service and from the Peer Manager, stores \<open>now\<close> in
  \<open>failedPeers\<close> and publishes the \<open>peer_offline\<close> event and a system message. The
  map is a \<open>sync.Map\<close> and no lock is held between the load and the store.
  \<open>handleDeliveryFailure\<close> below is a call that runs both parts with no other call in
  between.
\<close>

definition recently_failed :: "time \<Rightarrow> guid \<Rightarrow> Node \<Rightarrow> bool" where
  "recently_failed now g n =
     (case failedPeers n g of
        None \<Rightarrow> False
      | Some failureTime \<Rightarrow> now - failureTime < 5 * second)"

definition evict_peer ::
  "time \<Rightarrow> dPeer \<Rightarrow> MessageDeliveryStatus \<Rightarrow> Node \<Rightarrow> ws_event list \<times> Node" where
  "evict_peer now peer status n =
     (let peerName = (case Manager_GetPeer n (dGUID peer) of
                        Some mgrPeer \<Rightarrow> Name mgrPeer
                      | None \<Rightarrow> dName peer);
          n1 = Service_RemoveInactivePeer HandlerService (dGUID peer) n;
          n2 = Manager_RemoveInactivePeer (dGUID peer) n1;
          n3 = n2\<lparr>failedPeers := (failedPeers n2)(dGUID peer \<mapsto> now)\<rparr>
      in ([(''peer_offline'', PeerOffline (dGUID peer) peerName (Error status)),
           (''message'', SystemMessageContent
              (''Peer '' @ peerName @ '' ('' @ dGUID peer @ '') went offline: '' @ Error status)
              now)],
          n3))"

definition handleDeliveryFailure ::
  "time \<Rightarrow> dPeer \<Rightarrow> MessageDeliveryStatus \<Rightarrow> Node \<Rightarrow> ws_event list \<times> Node" where
  "handleDeliveryFailure now peer status n =
     (if recently_failed now (dGUID peer) n then ([], n) else evict_peer now peer status n)"

text \<open>
  A sequence of delivery failures, each with the clock reading of its call, handled one
  after the other.
\<close>

fun failures ::
  "(time \<times> dPeer \<times> MessageDeliveryStatus) list \<Rightarrow> Node \<Rightarrow> ws_event list \<times> Node" where
  "failures [] n = ([], n)"
| "failures ((t, p, st) # rest) n =
     (let (evs1, n1) = handleDeliveryFailure t p st n;
          (evs2, n2) = failures rest n1
      in (evs1 @ evs2, n2))"

text \<open>The \<open>peer_offline\<close> events for one GUID among a list of events.\<close>

definition offline_events :: "guid \<Rightarrow> ws_event list \<Rightarrow> ws_event list" where
  "offline_events g evs =
     filter (\<lambda>e. case e of
                   (t, PeerOffline g' nm reason) \<Rightarrow> t = ''peer_offline'' \<and> g' = g
                 | _ \<Rightarrow> False) evs"

subsection \<open>Discovery of the sender of an incoming message\<close>

text \<open>
  The loop of \<open>discoverPeerFromMessage\<close> over the ports 7331 to 7335: the first answer
  that reports the sender's GUID, or the text of the last error.
\<close>

fun probe_ports ::
  "world \<Rightarrow> guid \<Rightarrow> string \<Rightarrow> int list \<Rightarrow> string \<Rightarrow> string + (guid \<times> string \<times> int)" where
  "probe_ports w sender ip [] discoveryError = Inl discoveryError"
| "probe_ports w sender ip (port # rest) discoveryError =
     (case w_probe w ip port of
        ProbeFailed e \<Rightarrow> probe_ports w sender ip rest e
      | ProbeInfo g name p \<Rightarrow>
          if g \<noteq> sender
          then probe_ports w sender ip rest
                 (''GUID mismatch: message claims '' @ sender @ '' but whoami reports '' @ g)
          else Inr (g, name, p))"

text \<open>
  \<open>Handler.discoverPeerFromMessage(msg, sourceIP)\<close> at clock reading \<open>now\<close>, which
  \<open>HandleMessage\<close> calls for a decrypted message of another node before it processes
  the message. A sender the Peer Manager knows is refreshed. For any other sender the
  handler looks into the same map \<open>failedPeers\<close> that \<open>handleDeliveryFailure\<close> uses,
  here with a cooldown of 5 minutes, and when every probe fails it stores \<open>now\<close> there
  for the sender.
\<close>

definition discoverPeerFromMessage ::
  "world \<Rightarrow> time \<Rightarrow> Message \<Rightarrow> string \<Rightarrow> Node \<Rightarrow> unit result" where
  "discoverPeerFromMessage w now msg sourceIP n =
     (if SenderGUID msg = node_guid n then Returned () [] n
      else
        (case Manager_GetPeer n (SenderGUID msg) of
           Some mgrPeer \<Rightarrow>
             HandleUpdate w now
               \<lparr>GUID = GUID mgrPeer, Port = Port mgrPeer, Name = Name mgrPeer,
                IPAddress = IPAddress mgrPeer, LastSeen = 0\<rparr> n
         | None \<Rightarrow>
             if (case failedPeers n (SenderGUID msg) of
                   None \<Rightarrow> False
                 | Some failureTime \<Rightarrow> now - failureTime < 5 * minute)
             then Returned () [] n
             else
               (let n1 = n\<lparr>failedPeers := (failedPeers n)(SenderGUID msg := None)\<rparr>;
                    ip = takeWhile (\<lambda>c. c \<noteq> CHR '':'') sourceIP
                in case probe_ports w (SenderGUID msg) ip [7331, 7332, 7333, 7334, 7335] [] of
                     Inl discoveryError \<Rightarrow>
                       Returned ()
                         [(''peer_discovery_failed'',
                           PeerDiscoveryFailed (SenderGUID msg) ip discoveryError ''unreachable'')]
                         (n1\<lparr>failedPeers := (failedPeers n1)(SenderGUID msg \<mapsto> now)\<rparr>)
                   | Inr (g, name, port) \<Rightarrow>
                       (case SavePeer now g ip port None name (node_db n1) of
                          Inl SliceBoundsPanic \<Rightarrow> Stopped GoPanic [] n1
                        | saved \<Rightarrow>
                            (case HandleUpdate w now
                                    \<lparr>GUID = g, Port = port, Name = name, IPAddress = ip,
                                     LastSeen = now\<rparr>
                                    (case saved of
                                       Inr db' \<Rightarrow> n1\<lparr>node_db := db'\<rparr>
                                     | Inl _ \<Rightarrow> n1) of
                               Stopped s evs n3 \<Rightarrow> Stopped s evs n3
                             | Returned u evs n3 \<Rightarrow>
                                 Returned ()
                                   (evs @ [(''peer_discovered'',
                                            PeerDiscovered g name ip port ''active'')])
                                   n3)))))"

text \<open>Concrete inputs used by the closed theorems below.\<close>

definition dpeerB :: dPeer where
  "dpeerB = \<lparr>dGUID = ''peer-B-0001'', dPort = 7331, dIP = ''10.0.0.2'', dPublicKey = [],
             dName = ''bob'', dLastSeen = 0\<rparr>"

definition statusB :: MessageDeliveryStatus where
  "statusB = \<lparr>PeerGUID = ''peer-B-0001'', PeerName = ''bob'', Success = False,
              Error = ''Failed to send message: timeout'', Time = 0\<rparr>"

definition nodeB :: Node where
  "nodeB = node0\<lparr>mgr_peers := [(''peer-B-0001'', peerB)],
                 disc_peers := [(''peer-B-0001'', dpeerB)]\<rparr>"

definition msgA :: Message where
  "msgA = \<lparr>ID = ''3f2b8c1e-7d4a-4c0b-9e51-6a2d8f0b1c23'', SenderGUID = ''peer-B-0001'',
           ReceiverGUID = ''me'', Type = ''text'', Scope = ''private'', Content = ''ping'',
           Timestamp = (3, 0)\<rparr>"

text \<open>
  A network in which no request is answered, and one in which every request is. The
  rendering of the percentage is written out for the counts \<open>s\<close> and \<open>t\<close> whose
  quotient has at most one decimal.
\<close>

definition percent_text :: "int \<Rightarrow> int \<Rightarrow> string" where
  "percent_text s t = itoa (1000 * s div t div 10) @ ''.'' @ itoa (1000 * s div t mod 10)"

definition world_down :: world where
  "world_down =
     \<lparr>w_whoami = (\<lambda>m p. WhoamiFailed ''failed to fetch peer info: timeout''),
      w_send = (\<lambda>m p. PostError ''timeout''),
      w_post_returns = (\<lambda>m p. True),
      w_probe = (\<lambda>ip port. ProbeFailed ''timeout''),
      w_ParseIP = (\<lambda>ip. Some ip),
      w_percent = percent_text\<rparr>"

definition world_up :: world where
  "world_up =
     \<lparr>w_whoami = (\<lambda>m p. WhoamiInfo (dGUID p) (Some ''KEY'') (dName p)),
      w_send = (\<lambda>m p. Accepted202),
      w_post_returns = (\<lambda>m p. True),
      w_probe = (\<lambda>ip port. ProbeFailed ''timeout''),
      w_ParseIP = (\<lambda>ip. Some ip),
      w_percent = percent_text\<rparr>"

subsection \<open>The suppressor of repeated evictions\<close>

lemma handleDeliveryFailure_suppressed:
  assumes "failedPeers n (dGUID p) = Some t0" "t - t0 < 5 * second"
  shows "handleDeliveryFailure t p st n = ([], n)"
  using assms by (simp add: handleDeliveryFailure_def recently_failed_def)

lemma failures_suppressed:
  assumes "failedPeers n g = Some t0"
    and "\<forall>x \<in> set burst. dGUID (fst (snd x)) = g \<and> fst x - t0 < 5 * second"
  shows "failures burst n = ([], n)"
  using assms
proof (induction burst)
  case Nil
  then show ?case by simp
next
  case (Cons a burst)
  obtain t p st where a: "a = (t, p, st)" by (cases a)
  with Cons.prems have "handleDeliveryFailure t p st n = ([], n)"
    by (intro handleDeliveryFailure_suppressed [where ?t0.0 = t0]) auto
  with Cons a show ?case by simp
qed

lemma AList_delete_notin: "g \<notin> fst ` set (AList.delete g xs)"
  by (induction xs) auto

lemma handleDeliveryFailure_first:
  assumes "\<not> recently_failed t (dGUID p) n"
  shows "\<exists>nm body n'. handleDeliveryFailure t p st n =
      ([(''peer_offline'', PeerOffline (dGUID p) nm (Error st)),
        (''message'', SystemMessageContent body t)], n')
      \<and> failedPeers n' (dGUID p) = Some t
      \<and> dGUID p \<notin> fst ` set (mgr_peers n') \<and> dGUID p \<notin> fst ` set (hdisc_peers n')
      \<and> disc_peers n' = disc_peers n \<and> node_db n' = node_db n"
  using assms
  by (auto simp: handleDeliveryFailure_def evict_peer_def Let_def Manager_RemoveInactivePeer_def
      Service_RemoveInactivePeer_def set_service_peers_def service_peers_def AList_delete_notin)

lemma count_type_append: "count_type t (xs @ ys) = count_type t xs + count_type t ys"
  by (simp add: count_type_def)

text \<open>
  A burst for the GUID \<open>g\<close> within the 5 seconds after \<open>t\<close>: every failure that
  finds a young entry changes nothing, the first that does not evicts, and every failure
  after an eviction finds the entry the eviction wrote.
\<close>

lemma failures_all_suppressed:
  assumes "\<forall>x \<in> set burst. dGUID (fst (snd x)) = g \<and> recently_failed (fst x) g n"
  shows "failures burst n = ([], n)"
  using assms
proof (induction burst)
  case Nil
  then show ?case by simp
next
  case (Cons a burst)
  obtain t1 p st where a: "a = (t1, p, st)" by (cases a)
  with Cons.prems have "handleDeliveryFailure t1 p st n = ([], n)"
    by (simp add: handleDeliveryFailure_def)
  with Cons a show ?case by simp
qed

lemma failures_one_eviction:
  assumes "\<forall>x \<in> set burst. dGUID (fst (snd x)) = g \<and> t \<le> fst x \<and> fst x - t < 5 * second"
    and "\<exists>x \<in> set burst. \<not> recently_failed (fst x) g n"
  shows "\<exists>t1 nm body n'. failures burst n =
      ([(''peer_offline'', PeerOffline g nm body), (''message'', SystemMessageContent t1 n')],
       snd (failures burst n))
      \<and> g \<notin> fst ` set (mgr_peers (snd (failures burst n)))
      \<and> g \<notin> fst ` set (hdisc_peers (snd (failures burst n)))"
  using assms
proof (induction burst)
  case Nil
  then show ?case by simp
next
  case (Cons a burst)
  obtain t1 p st where a: "a = (t1, p, st)" by (cases a)
  from Cons.prems(1) a have g: "dGUID p = g" and t1: "t \<le> t1" by auto
  show ?case
  proof (cases "recently_failed t1 g n")
    case True
    then have "handleDeliveryFailure t1 p st n = ([], n)"
      using g by (simp add: handleDeliveryFailure_def)
    with a have eq: "failures (a # burst) n = failures burst n"
      by simp
    from Cons.prems(2) a True have "\<exists>x \<in> set burst. \<not> recently_failed (fst x) g n"
      by auto
    with Cons.IH Cons.prems(1) show ?thesis unfolding eq by simp
  next
    case False
    with g have "\<not> recently_failed t1 (dGUID p) n" by simp
    from handleDeliveryFailure_first [OF this, of st] obtain nm body n' where
      h: "handleDeliveryFailure t1 p st n =
        ([(''peer_offline'', PeerOffline (dGUID p) nm (Error st)),
          (''message'', SystemMessageContent body t1)], n')"
      and f: "failedPeers n' g = Some t1"
      and m: "dGUID p \<notin> fst ` set (mgr_peers n')" "dGUID p \<notin> fst ` set (hdisc_peers n')"
      using g by blast
    from Cons.prems(1) t1
    have "\<forall>x \<in> set burst. dGUID (fst (snd x)) = g \<and> fst x - t1 < 5 * second"
      by auto
    from failures_suppressed [OF f this] have "failures burst n' = ([], n')" .
    with a h m g show ?thesis by simp
  qed
qed

text \<open>
  Claim C7 as stated fails, because the suppressor's map is shared. A message of the
  unknown peer B arrives at clock reading 0 from an address where no probe is answered:
  \<open>discoverPeerFromMessage\<close> stores 0 for B in \<open>failedPeers\<close>. One second later B
  is merged into the Peer Manager. Three delivery failures to B follow, 2, 3 and 4
  seconds after the start: each finds the entry of the failed discovery, less than 5
  seconds old, and returns at once. The burst produces no \<open>peer_offline\<close> event and
  B stays in the Peer Manager's map.
\<close>

theorem handleDeliveryFailure_after_discovery_counterexample:
  "(case discoverPeerFromMessage world_down 0 msgA ''10.0.0.2:40000'' node0 of
      Stopped s evs n \<Rightarrow> False
    | Returned u evs1 n1 \<Rightarrow>
        (case Manager_HandleUpdate second True peerB n1 of
           Inl e \<Rightarrow> False
         | Inr (evs2, n2) \<Rightarrow>
             map fst evs1 = [''peer_discovery_failed'']
           \<and> failedPeers n1 ''peer-B-0001'' = Some 0
           \<and> map fst (mgr_peers n2) = [''peer-B-0001'']
           \<and> failures [(2 * second, dpeerB, statusB), (3 * second, dpeerB, statusB),
                        (4 * second, dpeerB, statusB)] n2 = ([], n2)))"
  by (simp add: discoverPeerFromMessage_def world_down_def msgA_def node0_def Manager_GetPeer_def
      Manager_HandleUpdate_def peerB_def SavePeer_def db_GetPeer_def upsert_peer_def
      handleDeliveryFailure_def recently_failed_def dpeerB_def second_def minute_def Let_def)

text \<open>
  Claim C7, amended. Take a burst of delivery failures to one peer P that reach
  \<open>handleDeliveryFailure\<close> one after the other, the first at clock reading \<open>t\<close> and
  the others at or after \<open>t\<close> and less than 5 seconds after it. If some failure of
  the burst finds no entry for P in \<open>failedPeers\<close>, or one that is at least 5 seconds
  old, the burst produces exactly one \<open>peer_offline\<close> event, for P, and P is removed
  from the Peer Manager's map and from the map of the discovery service that the handler
  holds; when the first failure is such a failure, the burst has exactly the effect of
  its first failure alone. Otherwise, that is when \<open>failedPeers\<close> holds an entry for P
  that is less than 5 seconds old at every failure of the burst, whether an eviction or
  a failed discovery of P wrote it, the burst produces no event and changes nothing. Any
  later failure of P that finds the entry at least 5 seconds old produces a
  \<open>peer_offline\<close> event again.
\<close>

theorem handleDeliveryFailure_burst:
  assumes window: "\<forall>x \<in> set rest. dGUID (fst (snd x)) = dGUID p \<and> t \<le> fst x
                     \<and> fst x - t < 5 * second"
  shows "count_type ''peer_offline'' (fst (failures ((t, p, st) # rest) n)) =
           (if \<exists>x \<in> set ((t, p, st) # rest). \<not> recently_failed (fst x) (dGUID p) n
            then 1 else 0)
       \<and> length (offline_events (dGUID p) (fst (failures ((t, p, st) # rest) n))) =
           (if \<exists>x \<in> set ((t, p, st) # rest). \<not> recently_failed (fst x) (dGUID p) n
            then 1 else 0)
       \<and> ((\<exists>x \<in> set ((t, p, st) # rest). \<not> recently_failed (fst x) (dGUID p) n) \<longrightarrow>
            dGUID p \<notin> fst ` set (mgr_peers (snd (failures ((t, p, st) # rest) n)))
          \<and> dGUID p \<notin> fst ` set (hdisc_peers (snd (failures ((t, p, st) # rest) n))))
       \<and> (\<not> recently_failed t (dGUID p) n \<longrightarrow>
            failures ((t, p, st) # rest) n = handleDeliveryFailure t p st n)
       \<and> ((\<forall>x \<in> set ((t, p, st) # rest). recently_failed (fst x) (dGUID p) n) \<longrightarrow>
            failures ((t, p, st) # rest) n = ([], n))
       \<and> (\<forall>t' p' st'. dGUID p' = dGUID p
              \<and> \<not> recently_failed t' (dGUID p) (snd (failures ((t, p, st) # rest) n)) \<longrightarrow>
            length (offline_events (dGUID p)
              (fst (handleDeliveryFailure t' p' st'
                 (snd (failures ((t, p, st) # rest) n))))) = 1)"
proof -
  let ?burst = "(t, p, st) # rest"
  from window
  have w: "\<forall>x \<in> set ?burst. dGUID (fst (snd x)) = dGUID p \<and> t \<le> fst x \<and> fst x - t < 5 * second"
    by (simp add: second_def)
  have none: "failures ?burst n = ([], n)"
    if "\<forall>x \<in> set ?burst. recently_failed (fst x) (dGUID p) n"
    using w that by (intro failures_all_suppressed [where g = "dGUID p"]) auto
  have one: "\<exists>t1 nm body n'. failures ?burst n =
      ([(''peer_offline'', PeerOffline (dGUID p) nm body),
        (''message'', SystemMessageContent t1 n')], snd (failures ?burst n))
      \<and> dGUID p \<notin> fst ` set (mgr_peers (snd (failures ?burst n)))
      \<and> dGUID p \<notin> fst ` set (hdisc_peers (snd (failures ?burst n)))"
    if "\<exists>x \<in> set ?burst. \<not> recently_failed (fst x) (dGUID p) n"
    using failures_one_eviction [OF w that] .
  have first: "failures ?burst n = handleDeliveryFailure t p st n"
    if fresh: "\<not> recently_failed t (dGUID p) n"
  proof -
    from handleDeliveryFailure_first [OF fresh, of st] obtain nm body n' where
      h: "handleDeliveryFailure t p st n =
        ([(''peer_offline'', PeerOffline (dGUID p) nm (Error st)),
          (''message'', SystemMessageContent body t)], n')"
      and f: "failedPeers n' (dGUID p) = Some t"
      by blast
    from window have "\<forall>x \<in> set rest. dGUID (fst (snd x)) = dGUID p \<and> fst x - t < 5 * second"
      by auto
    from failures_suppressed [OF f this] have "failures rest n' = ([], n')" .
    with h show ?thesis by simp
  qed
  have again: "length (offline_events (dGUID p)
              (fst (handleDeliveryFailure t' p' st' (snd (failures ?burst n))))) = 1"
    if "dGUID p' = dGUID p \<and> \<not> recently_failed t' (dGUID p) (snd (failures ?burst n))"
    for t' :: time and p' :: dPeer and st' :: MessageDeliveryStatus
  proof -
    from that have "\<not> recently_failed t' (dGUID p') (snd (failures ?burst n))" by simp
    from handleDeliveryFailure_first [OF this, of st'] that show ?thesis
      by (auto simp: offline_events_def)
  qed
  have count: "count_type ''peer_offline'' (fst (failures ?burst n)) =
           (if \<exists>x \<in> set ?burst. \<not> recently_failed (fst x) (dGUID p) n then 1 else 0)"
  proof (cases "\<exists>x \<in> set ?burst. \<not> recently_failed (fst x) (dGUID p) n")
    case True
    from one [OF True] obtain t1 nm body n' where
      "failures ?burst n = ([(''peer_offline'', PeerOffline (dGUID p) nm body),
        (''message'', SystemMessageContent t1 n')], snd (failures ?burst n))" by blast
    then have "fst (failures ?burst n) = [(''peer_offline'', PeerOffline (dGUID p) nm body),
        (''message'', SystemMessageContent t1 n')]" by (metis fst_conv)
    with True show ?thesis by (simp add: count_type_def)
  next
    case False
    then have "\<forall>x \<in> set ?burst. recently_failed (fst x) (dGUID p) n" by blast
    from none [OF this] False show ?thesis by (simp add: count_type_def)
  qed
  have offl: "length (offline_events (dGUID p) (fst (failures ?burst n))) =
           (if \<exists>x \<in> set ?burst. \<not> recently_failed (fst x) (dGUID p) n then 1 else 0)"
  proof (cases "\<exists>x \<in> set ?burst. \<not> recently_failed (fst x) (dGUID p) n")
    case True
    from one [OF True] obtain t1 nm body n' where
      "failures ?burst n = ([(''peer_offline'', PeerOffline (dGUID p) nm body),
        (''message'', SystemMessageContent t1 n')], snd (failures ?burst n))" by blast
    then have "fst (failures ?burst n) = [(''peer_offline'', PeerOffline (dGUID p) nm body),
        (''message'', SystemMessageContent t1 n')]" by (metis fst_conv)
    with True show ?thesis by (simp add: offline_events_def)
  next
    case False
    then have "\<forall>x \<in> set ?burst. recently_failed (fst x) (dGUID p) n" by blast
    from none [OF this] False show ?thesis by (simp add: offline_events_def)
  qed
  from count offl one first none again show ?thesis by blast
qed

theorem handleDeliveryFailure_burst_witness:
  "count_type ''peer_offline''
     (fst (failures [(0, dpeerB, statusB), (second, dpeerB, statusB),
                     (4 * second, dpeerB, statusB)] nodeB)) = 1
   \<and> mgr_peers (snd (failures [(0, dpeerB, statusB), (second, dpeerB, statusB),
                     (4 * second, dpeerB, statusB)] nodeB)) = []
   \<and> failures [(second, dpeerB, statusB), (4 * second, dpeerB, statusB)]
        (nodeB\<lparr>failedPeers := [''peer-B-0001'' \<mapsto> 0]\<rparr>)
      = ([], nodeB\<lparr>failedPeers := [''peer-B-0001'' \<mapsto> 0]\<rparr>)
   \<and> count_type ''peer_offline''
        (fst (failures [(4 * second, dpeerB, statusB), (6 * second, dpeerB, statusB),
                        (8 * second, dpeerB, statusB)]
           (nodeB\<lparr>failedPeers := [''peer-B-0001'' \<mapsto> 0]\<rparr>))) = 1
   \<and> count_type ''peer_offline''
     (fst (failures [(0, dpeerB, statusB), (second, dpeerB, statusB),
                     (4 * second, dpeerB, statusB), (5 * second, dpeerB, statusB)] nodeB)) = 2"
proof -
  let ?rest = "[(second, dpeerB, statusB), (4 * second, dpeerB, statusB)]"
  let ?nf = "nodeB\<lparr>failedPeers := [''peer-B-0001'' \<mapsto> 0]\<rparr>"
  have fresh: "\<not> recently_failed 0 (dGUID dpeerB) nodeB"
    by (simp add: recently_failed_def nodeB_def node0_def)
  have window: "\<forall>x \<in> set ?rest. dGUID (fst (snd x)) = dGUID dpeerB \<and> 0 \<le> fst x
                  \<and> fst x - 0 < 5 * second"
    by (simp add: second_def)
  have window': "\<forall>x \<in> set [(4 * second, dpeerB, statusB)].
                  dGUID (fst (snd x)) = dGUID dpeerB \<and> second \<le> fst x
                  \<and> fst x - second < 5 * second"
    by (simp add: second_def)
  have window'': "\<forall>x \<in> set [(6 * second, dpeerB, statusB), (8 * second, dpeerB, statusB)].
                  dGUID (fst (snd x)) = dGUID dpeerB \<and> 4 * second \<le> fst x
                  \<and> fst x - 4 * second < 5 * second"
    by (simp add: second_def)
  have young: "\<forall>x \<in> set ((second, dpeerB, statusB) # [(4 * second, dpeerB, statusB)]).
            recently_failed (fst x) (dGUID dpeerB) ?nf"
    by (simp add: recently_failed_def dpeerB_def second_def)
  have old: "\<exists>x \<in> set ((4 * second, dpeerB, statusB)
                 # [(6 * second, dpeerB, statusB), (8 * second, dpeerB, statusB)]).
            \<not> recently_failed (fst x) (dGUID dpeerB) ?nf"
    by (simp add: recently_failed_def dpeerB_def second_def)
  note b = handleDeliveryFailure_burst [OF window, of statusB nodeB]
  have ex: "\<exists>x \<in> set ((0, dpeerB, statusB) # ?rest).
            \<not> recently_failed (fst x) (dGUID dpeerB) nodeB"
    using fresh by simp
  have one: "count_type ''peer_offline'' (fst (failures ((0, dpeerB, statusB) # ?rest) nodeB)) = 1"
    using b [THEN conjunct1] ex by (simp only: if_True)
  have eq: "failures ((0, dpeerB, statusB) # ?rest) nodeB
      = handleDeliveryFailure 0 dpeerB statusB nodeB"
    using b fresh by blast
  have mgr: "mgr_peers (snd (failures ((0, dpeerB, statusB) # ?rest) nodeB)) = []"
    unfolding eq
    by (simp add: handleDeliveryFailure_def recently_failed_def evict_peer_def nodeB_def node0_def
        Let_def dpeerB_def Manager_RemoveInactivePeer_def Service_RemoveInactivePeer_def
        set_service_peers_def service_peers_def Manager_GetPeer_def)
  have none: "failures ((second, dpeerB, statusB) # [(4 * second, dpeerB, statusB)]) ?nf
      = ([], ?nf)"
    using handleDeliveryFailure_burst [OF window', of statusB ?nf] young by blast
  have mixed: "count_type ''peer_offline''
        (fst (failures ((4 * second, dpeerB, statusB)
                 # [(6 * second, dpeerB, statusB), (8 * second, dpeerB, statusB)]) ?nf)) = 1"
    using handleDeliveryFailure_burst [OF window'', of statusB ?nf, THEN conjunct1] old
    by (simp only: if_True)
  have two: "count_type ''peer_offline''
     (fst (failures [(0, dpeerB, statusB), (second, dpeerB, statusB),
                     (4 * second, dpeerB, statusB), (5 * second, dpeerB, statusB)] nodeB)) = 2"
    by (simp add: handleDeliveryFailure_def recently_failed_def evict_peer_def nodeB_def node0_def
        Let_def dpeerB_def second_def Manager_RemoveInactivePeer_def
        Service_RemoveInactivePeer_def set_service_peers_def service_peers_def
        Manager_GetPeer_def count_type_def)
  from one mgr none mixed two show ?thesis by simp
qed

text \<open>
  The statement above is about calls that do not overlap. Between the load of the first
  part and the store of the second no lock is held, so two calls for the same peer that
  run at the same time can both pass the check before either stores: both then evict,
  and two \<open>peer_offline\<close> events are published for one burst.
\<close>

lemma handleDeliveryFailure_interleaved:
  "\<not> recently_failed 0 (dGUID dpeerB) nodeB
   \<and> (let (evs1, n1) = evict_peer 0 dpeerB statusB nodeB;
           (evs2, n2) = evict_peer 0 dpeerB statusB n1
       in count_type ''peer_offline'' (evs1 @ evs2) = 2)"
  by (simp add: recently_failed_def nodeB_def node0_def dpeerB_def evict_peer_def Let_def
      count_type_def)

text \<open>
  The eviction leaves the map of the running discovery service and the store as they
  were: the handler removes the peer from the service it holds, which is not the one
  that scans the network.
\<close>

lemma handleDeliveryFailure_running_service:
  "disc_peers (snd (handleDeliveryFailure t p st n)) = disc_peers n
   \<and> node_db (snd (handleDeliveryFailure t p st n)) = node_db n"
  by (simp add: handleDeliveryFailure_def evict_peer_def Let_def Manager_RemoveInactivePeer_def
      Service_RemoveInactivePeer_def set_service_peers_def service_peers_def)

subsection \<open>The duplicate check and the store write\<close>

text \<open>
  \<open>db.MessageExists\<close> runs \<open>SELECT COUNT(*) FROM messages WHERE id = ?\<close> with the
  message's ID bound as text. The column \<open>id\<close> is the integer rowid, not
  \<open>message_id\<close>. SQLite compares an integer column with a text value by first reading
  the text as a number, and a text that is no number is equal to no integer. A text is
  a number when it consists of optional blanks, an optional sign, digits with an
  optional point among them (at least one digit), an optional exponent (\<open>e\<close> or \<open>E\<close>,
  an optional sign, at least one digit) and optional blanks. \<open>sql_numeric\<close> gives the
  digits \<open>m\<close> and the decimal exponent \<open>e\<close> of such a text, for the number
  \<open>m * 10 ^ e\<close>, and \<open>text_as_integer\<close> its value when that is an integer. SQLite
  computes the value of a text with a point or an exponent in floating point; the model
  computes it exactly, which is the same for texts of up to 15 digits.
\<close>

definition is_digit :: "char \<Rightarrow> bool" where
  "is_digit c = (c \<in> set ''0123456789'')"

definition is_space :: "char \<Rightarrow> bool" where
  "is_space c = (c \<in> set [CHR '' '', CHR 0x09, CHR 0x0A, CHR 0x0B, CHR 0x0C, CHR 0x0D])"

definition digit_value :: "char \<Rightarrow> int" where
  "digit_value c = int (of_char c) - 48"

definition digits_value :: "string \<Rightarrow> int" where
  "digits_value ds = foldl (\<lambda>acc c. 10 * acc + digit_value c) 0 ds"

definition split_sign :: "string \<Rightarrow> int \<times> string" where
  "split_sign s =
     (case s of
        c # rest \<Rightarrow> if c = CHR ''-'' then (- 1, rest)
                    else if c = CHR ''+'' then (1, rest) else (1, s)
      | [] \<Rightarrow> (1, s))"

definition split_fraction :: "string \<Rightarrow> string \<times> string" where
  "split_fraction s =
     (case s of
        c # rest \<Rightarrow> if c = CHR ''.'' then (takeWhile is_digit rest, dropWhile is_digit rest)
                    else ([], s)
      | [] \<Rightarrow> ([], s))"

text \<open>The exponent: \<open>None\<close> when the letter is followed by no digit.\<close>

definition split_exponent :: "string \<Rightarrow> int option \<times> string" where
  "split_exponent s =
     (case s of
        c # rest \<Rightarrow>
          if c = CHR ''e'' \<or> c = CHR ''E'' then
            (let (esign, r) = split_sign rest
             in if takeWhile is_digit r = [] then (None, r)
                else (Some (esign * digits_value (takeWhile is_digit r)), dropWhile is_digit r))
          else (Some 0, s)
      | [] \<Rightarrow> (Some 0, s))"

definition sql_numeric :: "string \<Rightarrow> (int \<times> int) option" where
  "sql_numeric s =
     (let (sgn, z2) = split_sign (dropWhile is_space s);
          ip = takeWhile is_digit z2;
          (fp, z4) = split_fraction (dropWhile is_digit z2);
          (ex, z5) = split_exponent z4
      in case ex of
           None \<Rightarrow> None
         | Some e \<Rightarrow>
             if dropWhile is_space z5 = [] \<and> ip @ fp \<noteq> []
             then Some (sgn * digits_value (ip @ fp), e - int (length fp))
             else None)"

definition text_as_integer :: "string \<Rightarrow> int option" where
  "text_as_integer s =
     (case sql_numeric s of
        None \<Rightarrow> None
      | Some (m, e) \<Rightarrow>
          if 0 \<le> e then Some (m * 10 ^ nat e)
          else if m mod 10 ^ nat (- e) = 0 then Some (m div 10 ^ nat (- e))
          else None)"

definition MessageExists :: "DB \<Rightarrow> string \<Rightarrow> bool" where
  "MessageExists db messageID =
     (case text_as_integer messageID of
        None \<Rightarrow> False
      | Some i \<Rightarrow> int (length (filter (\<lambda>r. m_id r = i) (messages_tbl db))) > 0)"

definition SaveMessage :: "DB \<Rightarrow> Message \<Rightarrow> string \<Rightarrow> db_error option \<times> DB" where
  "SaveMessage db msg sourceIP =
     db_SaveMessage db (ID msg) (SenderGUID msg) (ReceiverGUID msg) (Content msg) (Type msg)
       (Scope msg) (Timestamp msg) sourceIP"

subsection \<open>Delivery to one peer\<close>

text \<open>
  \<open>Handler.ForwardMessageToPeer\<close> at clock reading \<open>now\<close>. It fetches the peer's key
  through the discovery service that the handler holds, then decodes and parses the key,
  encrypts, marshals and posts the message, and checks for status 202. Each step that
  fails sets \<open>status.Error\<close>, calls \<open>handleDeliveryFailure\<close> and returns the status.
  A panic of the key fetch ends the call.
\<close>

fun send_error :: "send_outcome \<Rightarrow> string option" where
  "send_error PemDecodeError = Some ''Failed to decode public key''"
| "send_error (KeyParseError e) = Some (''Failed to parse public key: '' @ e)"
| "send_error (EncryptError e) = Some (''Failed to encrypt message: '' @ e)"
| "send_error (MarshalError e) = Some (''Failed to marshal message: '' @ e)"
| "send_error (PostError e) = Some (''Failed to send message: '' @ e)"
| "send_error (StatusNot202 code body) =
     Some (''Peer returned error (HTTP '' @ itoa code @ ''): '' @ body)"
| "send_error Accepted202 = None"

definition delivery_failed ::
  "time \<Rightarrow> dPeer \<Rightarrow> MessageDeliveryStatus \<Rightarrow> string \<Rightarrow> Node \<Rightarrow> MessageDeliveryStatus result" where
  "delivery_failed now peer status e n =
     (let status' = status\<lparr>Success := False, Error := e\<rparr>;
          (evs, n') = handleDeliveryFailure now peer status' n
      in Returned status' evs n')"

definition ForwardMessageToPeer ::
  "world \<Rightarrow> time \<Rightarrow> Message \<Rightarrow> dPeer \<Rightarrow> Node \<Rightarrow> MessageDeliveryStatus result" where
  "ForwardMessageToPeer w now msg peer n =
     (let status = \<lparr>PeerGUID = dGUID peer, PeerName = dName peer, Success = False, Error = [],
                     Time = now\<rparr>
      in case Service_GetPeerPublicKey w now HandlerService msg peer n of
           Stopped s evs n1 \<Rightarrow> Stopped s evs n1
         | Returned (KeyError e) evs n1 \<Rightarrow>
             delivery_failed now peer status (''Failed to get public key: '' @ e) n1
         | Returned (KeyFetched pubKeyBytes) evs n1 \<Rightarrow>
             (case send_error (w_send w msg peer) of
                Some e \<Rightarrow> delivery_failed now peer status e n1
              | None \<Rightarrow> Returned (status\<lparr>Success := True\<rparr>) [] n1))"

subsection \<open>\<open>Handler.ProcessMessage\<close>\<close>

text \<open>
  The conversion of a Manager peer to a discovery peer in \<open>ProcessMessage\<close>: key and
  \<open>LastSeen\<close> keep their zero values.
\<close>

definition to_dPeer :: "Peer \<Rightarrow> dPeer" where
  "to_dPeer mgrPeer =
     \<lparr>dGUID = GUID mgrPeer, dPort = Port mgrPeer, dIP = IPAddress mgrPeer, dPublicKey = [],
      dName = Name mgrPeer, dLastSeen = 0\<rparr>"

text \<open>
  What follows the call of \<open>ForwardMessageToPeer\<close> for one target, in both branches:
  the status is appended to the report, one of the two counters goes up, and a failure
  reaches \<open>handleDeliveryFailure\<close> a second time.
\<close>

definition count_delivery ::
  "time \<Rightarrow> dPeer \<Rightarrow> MessageDeliveryStatus \<Rightarrow> MessageDeliveryReport \<Rightarrow> Node
    \<Rightarrow> MessageDeliveryReport \<times> ws_event list \<times> Node" where
  "count_delivery now peer status report n =
     (let report1 = report\<lparr>PeerStatuses := PeerStatuses report @ [status]\<rparr>
      in if Success status then (report1\<lparr>Succeeded := Succeeded report1 + 1\<rparr>, [], n)
         else (let (evs, n') = handleDeliveryFailure now peer status n
               in (report1\<lparr>Failed := Failed report1 + 1\<rparr>, evs, n')))"

text \<open>The loop \<open>for _, peer := range broadcastPeers\<close>.\<close>

fun broadcast_loop ::
  "world \<Rightarrow> time \<Rightarrow> Message \<Rightarrow> dPeer list \<Rightarrow> MessageDeliveryReport \<Rightarrow> Node
    \<Rightarrow> MessageDeliveryReport result" where
  "broadcast_loop w now msg [] report n = Returned report [] n"
| "broadcast_loop w now msg (peer # rest) report n =
     (case ForwardMessageToPeer w now (msg\<lparr>ReceiverGUID := dGUID peer\<rparr>) peer n of
        Stopped s evs n1 \<Rightarrow> Stopped s evs n1
      | Returned status evs1 n1 \<Rightarrow>
          (let (report2, evs2, n2) = count_delivery now peer status report n1;
               progress = (''delivery_progress'',
                  DeliveryProgress (ID msg) (dGUID peer) (dName peer) (Success status)
                    (Error status) (Succeeded report2) (Failed report2) (TotalPeers report2))
           in prepend_events (evs1 @ evs2 @ [progress])
                (broadcast_loop w now msg rest report2 n2)))"

text \<open>The texts that carry the counts \<open>s\<close> (succeeded) and \<open>t\<close> (total) of a finished delivery.\<close>

definition final_details :: "world \<Rightarrow> int \<Rightarrow> int \<Rightarrow> string" where
  "final_details w s t =
     ''Delivery complete: '' @ itoa s @ ''/'' @ itoa t @ '' successful (''
       @ w_percent w s t @ ''%)''"

definition summary_text :: "world \<Rightarrow> int \<Rightarrow> int \<Rightarrow> string" where
  "summary_text w s t =
     ''Delivered to '' @ itoa s @ ''/'' @ itoa t @ '' peers (''
       @ w_percent w s t @ ''% success)''"

text \<open>The branch \<open>msg.Scope == messages.ScopeBroadcast\<close>.\<close>

definition deliver_broadcast ::
  "world \<Rightarrow> time \<Rightarrow> Message \<Rightarrow> MessageDeliveryReport \<Rightarrow> Node \<Rightarrow> MessageDeliveryReport result" where
  "deliver_broadcast w now msg report n =
     (let broadcastPeers =
            map to_dPeer
              (filter (\<lambda>mgrPeer. GUID mgrPeer \<noteq> SenderGUID msg) (Manager_GetPeers n));
          report1 = report\<lparr>TotalPeers := int (length broadcastPeers)\<rparr>
      in if TotalPeers report1 = 0 then
           Returned report1
             [(''delivery_status'',
               DeliveryStatus (ID msg) ''completed'' ''No peers available for broadcast'')]
             n
         else
           (case prepend_events
                   [(''delivery_status'',
                     BroadcastStatus (ID msg) ''broadcasting''
                       (''Broadcasting to '' @ itoa (TotalPeers report1) @ '' peers...'')
                       (TotalPeers report1))]
                   (broadcast_loop w now msg broadcastPeers report1 n) of
              Stopped s evs n' \<Rightarrow> Stopped s evs n'
            | Returned report2 evs n' \<Rightarrow>
                Returned report2
                  (evs @
                   [(''delivery_final'',
                     BroadcastFinal (ID msg) ''completed''
                       (final_details w (Succeeded report2) (TotalPeers report2))
                       (Succeeded report2) (Failed report2) (TotalPeers report2))])
                  n'))"

text \<open>The branch \<open>msg.Scope == messages.ScopePrivate\<close>.\<close>

definition deliver_private ::
  "world \<Rightarrow> time \<Rightarrow> Message \<Rightarrow> MessageDeliveryReport \<Rightarrow> Node \<Rightarrow> MessageDeliveryReport result" where
  "deliver_private w now msg report n =
     (let report1 = report\<lparr>TotalPeers := 1\<rparr>;
          sending = (''delivery_status'',
             PrivateStatus (ID msg) ''sending''
               (''Sending private message to '' @ ReceiverGUID msg @ ''...'') (ReceiverGUID msg))
      in case Manager_GetPeer n (ReceiverGUID msg) of
           Some mgrPeer \<Rightarrow>
             (let peer = to_dPeer mgrPeer
              in case prepend_events [sending] (ForwardMessageToPeer w now msg peer n) of
                   Stopped s evs n1 \<Rightarrow> Stopped s evs n1
                 | Returned status evs1 n1 \<Rightarrow>
                     (let (report3, evs2, n2) = count_delivery now peer status report1 n1
                      in Returned report3
                           (evs1 @ evs2 @
                            [(''delivery_final'',
                              PrivateFinal (ID msg) ''completed''
                                (''Private message delivery to '' @ dName peer @ '' '' @
                                   (if Success status then ''succeeded'' else ''failed''))
                                (dGUID peer) (Success status) (Error status))])
                           n2))
         | None \<Rightarrow>
             (let status = \<lparr>PeerGUID = ReceiverGUID msg, PeerName = ''Unknown'', Success = False,
                             Error = ''Peer not found in active peers list'', Time = now\<rparr>;
                  report2 = report1\<lparr>PeerStatuses := PeerStatuses report1 @ [status],
                                    Failed := Failed report1 + 1\<rparr>
              in Returned report2
                   [sending,
                    (''delivery_final'',
                     PrivateNotFound (ID msg) ''failed''
                       (''Failed to deliver private message: peer '' @ ReceiverGUID msg
                          @ '' not found'')
                       (ReceiverGUID msg) ''Peer not found in active peers list'')]
                   n))"

text \<open>
  \<open>ProcessMessage(msg, sourceIP)\<close> at clock reading \<open>now\<close>: the delivery report, the
  events published in order, and the new state. The handler's \<open>db\<close> is the server's
  store (never nil) and its \<open>OnMessage\<close> hook is never set by the server, so neither
  test appears. An error of \<open>SaveMessage\<close> is logged and processing goes on.
\<close>

definition ProcessMessage ::
  "world \<Rightarrow> time \<Rightarrow> Message \<Rightarrow> string \<Rightarrow> Node \<Rightarrow> MessageDeliveryReport result" where
  "ProcessMessage w now msg sourceIP n =
     (let report = \<lparr>MessageID = ID msg, TotalPeers = 0, Succeeded = 0, Failed = 0,
                     DeliveryTime = now, PeerStatuses = [], Summary = []\<rparr>
      in if MessageExists (node_db n) (ID msg) then Returned report [] n
         else
           (let n1 = n\<lparr>node_db := snd (SaveMessage (node_db n) msg sourceIP)\<rparr>
            in case (if SenderGUID msg = node_guid n1 then
                       prepend_events
                         [(''message'', WebMessageContent msg),
                          (''delivery_status'',
                           DeliveryStatus (ID msg) ''processing''
                             ''Starting message delivery...'')]
                         (if Scope msg = ''broadcast''
                          then deliver_broadcast w now msg report n1
                          else if Scope msg = ''private''
                          then deliver_private w now msg report n1
                          else Returned report [] n1)
                     else Returned report [(''message'', WebMessageContent msg)] n1) of
                 Stopped s evs n2 \<Rightarrow> Stopped s evs n2
               | Returned report1 evs n2 \<Rightarrow>
                   Returned
                     (if TotalPeers report1 > 0
                      then report1\<lparr>Summary :=
                             summary_text w (Succeeded report1) (TotalPeers report1)\<rparr>
                      else report1)
                     evs n2))"

text \<open>The peers a broadcast of \<open>msg\<close> is sent to.\<close>

definition broadcast_targets :: "Message \<Rightarrow> Node \<Rightarrow> Peer list" where
  "broadcast_targets msg n =
     filter (\<lambda>mgrPeer. GUID mgrPeer \<noteq> SenderGUID msg) (Manager_GetPeers n)"

subsection \<open>Submission through the client API (package clientapi)\<close>

text \<open>
  What a local client submits, over HTTP or over a UI session: the four fields of the
  JSON object.
\<close>

record submission =
  sub_Type :: string
  sub_Content :: string
  sub_ReceiverGUID :: string
  sub_Scope :: string

text \<open>
  \<open>messages.NewWebMessage\<close>, with the fresh UUID and the clock reading as
  parameters.
\<close>

definition NewWebMessage :: "string \<Rightarrow> ztime \<Rightarrow> guid \<Rightarrow> guid \<Rightarrow> string \<Rightarrow> string \<Rightarrow> Message" where
  "NewWebMessage uuid ts senderGUID receiverGUID messageType content =
     \<lparr>ID = uuid, SenderGUID = senderGUID, ReceiverGUID = receiverGUID, Type = messageType,
      Scope = ''broadcast'', Content = content, Timestamp = ts\<rparr>"

text \<open>
  \<open>Handlers.HandleMessage\<close>, the handler of \<open>POST /api/v1/client/message\<close>, at
  clock reading \<open>now\<close> in the zone \<open>zone\<close>. \<open>body\<close> is the parsed request body,
  \<open>None\<close> when it is no JSON object of the expected shape. The message is built by
  \<open>NewWebMessage\<close>, gets the scope the client wrote, whatever it is, and goes to
  the handler's \<open>onMessage\<close>, which \<open>server.New\<close> sets to
  \<open>Handler.ProcessMessage\<close>; the answer is status 202 with the report.
\<close>

definition client_HandleMessage ::
  "world \<Rightarrow> time \<Rightarrow> int \<Rightarrow> string \<Rightarrow> string \<Rightarrow> Request \<Rightarrow> submission option \<Rightarrow> Node
    \<Rightarrow> MessageDeliveryReport response result" where
  "client_HandleMessage w now zone uuid clientAPIKey r body n =
     (if \<not> verifyClient \<lparr>h_db = node_db n, h_guid = node_guid n,
                          h_clientAPIKey = clientAPIKey\<rparr> r
      then Returned (HttpError 401 ''Unauthorized'') [] n
      else
        (case body of
           None \<Rightarrow> Returned (HttpError 400 ''Failed to parse message'') [] n
         | Some msg \<Rightarrow>
             (case ProcessMessage w now
                     ((NewWebMessage uuid (now, zone) (node_guid n) (sub_ReceiverGUID msg)
                         (sub_Type msg) (sub_Content msg))\<lparr>Scope := sub_Scope msg\<rparr>)
                     (client_ip r) n of
                Stopped s evs n' \<Rightarrow> Stopped s evs n'
              | Returned report evs n' \<Rightarrow> Returned (HttpAccepted report) evs n')))"

subsection \<open>\<open>Server.processMessage\<close> (package server) and the session reader (package websocket)\<close>

text \<open>
  \<open>Server.forwardMessageToPeer\<close>: the key fetch through the running discovery service,
  then the same steps as the handler's delivery, with a client that has no timeout.
  Every failure is logged and nothing else: no status is returned, no event is
  published, and \<open>handleDeliveryFailure\<close> is not called.
\<close>

definition Server_forwardMessageToPeer ::
  "world \<Rightarrow> time \<Rightarrow> Message \<Rightarrow> dPeer \<Rightarrow> Node \<Rightarrow> unit result" where
  "Server_forwardMessageToPeer w now msg peer n =
     (case Service_GetPeerPublicKey w now RunningService msg peer n of
        Stopped s evs n1 \<Rightarrow> Stopped s evs n1
      | Returned (KeyError e) evs n1 \<Rightarrow> Returned () [] n1
      | Returned (KeyFetched pubKeyBytes) evs n1 \<Rightarrow>
          if w_post_returns w msg peer then Returned () [] n1
          else Stopped NeverReturns [] n1)"

text \<open>The loop \<open>for _, peer := range peers\<close> of \<open>Server.processMessage\<close>.\<close>

fun server_loop :: "world \<Rightarrow> time \<Rightarrow> Message \<Rightarrow> dPeer list \<Rightarrow> Node \<Rightarrow> unit result" where
  "server_loop w now msg [] n = Returned () [] n"
| "server_loop w now msg (peer # rest) n =
     (if dGUID peer = SenderGUID msg then server_loop w now msg rest n
      else
        (case Server_forwardMessageToPeer w now (msg\<lparr>ReceiverGUID := dGUID peer\<rparr>) peer n of
           Stopped s evs n1 \<Rightarrow> Stopped s evs n1
         | Returned u evs n1 \<Rightarrow> prepend_events evs (server_loop w now msg rest n1)))"

text \<open>
  \<open>Server.processMessage(msg, sourceIP)\<close> at clock reading \<open>now\<close>, the function that
  the session manager is given as its message handler (\<open>websocket.NewManager\<close> in
  \<open>server.New\<close>). The server's \<open>OnMessage\<close> hook is never set. An error of
  \<open>SaveMessage\<close> ends the call before anything is published. The targets come from
  the running discovery service, not from the Peer Manager.
\<close>

definition Server_processMessage ::
  "world \<Rightarrow> time \<Rightarrow> Message \<Rightarrow> string \<Rightarrow> Node \<Rightarrow> unit result" where
  "Server_processMessage w now msg sourceIP n =
     (case SaveMessage (node_db n) msg sourceIP of
        (Some err, db') \<Rightarrow> Returned () [] n
      | (None, db') \<Rightarrow>
          prepend_events [(''message'', ServerWebMessageContent msg sourceIP (node_port n))]
            (let n1 = n\<lparr>node_db := db'\<rparr>
             in if Scope msg = ''broadcast''
                then server_loop w now msg (Service_GetPeers RunningService n1) n1
                else if Scope msg = ''private'' \<and> ReceiverGUID msg \<noteq> []
                then (case Service_GetPeer now n1 (ReceiverGUID msg) of
                        (Some peer, n2) \<Rightarrow> Server_forwardMessageToPeer w now msg peer n2
                      | (None, n2) \<Rightarrow> Returned () [] n2)
                else Returned () [] n1))"

text \<open>
  The case \<open>message\<close> of \<open>Connection.readPump\<close>: what a UI session submits becomes a
  message of this node with a fresh UUID as its ID and the local time as its timestamp;
  its scope is broadcast when the submission says so or names no receiver, and private
  otherwise. The message goes to the manager's handler, \<open>Server.processMessage\<close>, with
  the session's remote address.
\<close>

definition readPump_message ::
  "world \<Rightarrow> time \<Rightarrow> int \<Rightarrow> string \<Rightarrow> Connection \<Rightarrow> submission \<Rightarrow> Node \<Rightarrow> unit result" where
  "readPump_message w now zone uuid c content n =
     Server_processMessage w now
       \<lparr>ID = uuid, SenderGUID = node_guid n, ReceiverGUID = sub_ReceiverGUID content,
        Type = sub_Type content,
        Scope = (if sub_Scope content = ''broadcast'' then ''broadcast''
                 else if sub_ReceiverGUID content = [] then ''broadcast''
                 else ''private''),
        Content = sub_Content content, Timestamp = (now, zone)\<rparr>
       (remoteAddr c) n"

subsection \<open>Duplicates\<close>

text \<open>When the duplicate check answers yes, the message is dropped as the claim says.\<close>

lemma ProcessMessage_when_exists:
  "MessageExists (node_db n) (ID msg) \<Longrightarrow>
   ProcessMessage w now msg sourceIP n =
     Returned \<lparr>MessageID = ID msg, TotalPeers = 0, Succeeded = 0, Failed = 0,
       DeliveryTime = now, PeerStatuses = [], Summary = []\<rparr> [] n"
  by (simp add: ProcessMessage_def)

text \<open>
  But the check never answers yes for an ID with a character that cannot occur in a
  number (any character other than a digit, a blank, a sign, a point and the letter
  \<open>e\<close>), whatever the store holds.
\<close>

definition numeric_char :: "char \<Rightarrow> bool" where
  "numeric_char c = (is_digit c \<or> is_space c \<or> c \<in> set ''+-.eE'')"

lemma split_sign_chars:
  "split_sign s = (sg, r) \<Longrightarrow> list_all numeric_char r \<Longrightarrow> list_all numeric_char s"
  by (auto simp: split_sign_def numeric_char_def split: list.splits if_splits)

lemma drop_digits_chars:
  "list_all numeric_char (dropWhile is_digit s) \<Longrightarrow> list_all numeric_char s"
  by (induction s) (auto simp: numeric_char_def split: if_splits)

lemma drop_spaces_chars:
  "list_all numeric_char (dropWhile is_space s) \<Longrightarrow> list_all numeric_char s"
  by (induction s) (auto simp: numeric_char_def split: if_splits)

lemma split_fraction_chars:
  assumes "split_fraction s = (fp, r)" and "list_all numeric_char r"
  shows "list_all numeric_char s"
proof (cases s)
  case Nil
  then show ?thesis by simp
next
  case (Cons c rest)
  show ?thesis
  proof (cases "c = CHR ''.''")
    case True
    with assms Cons have "list_all numeric_char (dropWhile is_digit rest)"
      by (simp add: split_fraction_def)
    then have "list_all numeric_char rest" by (rule drop_digits_chars)
    with Cons True show ?thesis by (simp add: numeric_char_def)
  next
    case False
    with assms Cons show ?thesis by (simp add: split_fraction_def)
  qed
qed

lemma split_exponent_chars:
  assumes "split_exponent s = (Some e, r)" and "list_all numeric_char r"
  shows "list_all numeric_char s"
proof (cases s)
  case Nil
  then show ?thesis by simp
next
  case (Cons c rest)
  show ?thesis
  proof (cases "c = CHR ''e'' \<or> c = CHR ''E''")
    case False
    with assms Cons show ?thesis by (simp add: split_exponent_def)
  next
    case True
    obtain esign r2 where ss: "split_sign rest = (esign, r2)" by (cases "split_sign rest")
    from assms(1) Cons True ss have r: "r = dropWhile is_digit r2"
      by (auto simp: split_exponent_def Let_def split: if_splits)
    with assms(2) have "list_all numeric_char r2" by (simp add: drop_digits_chars)
    from split_sign_chars [OF ss this] have "list_all numeric_char rest" .
    with Cons True show ?thesis by (auto simp: numeric_char_def)
  qed
qed

lemma sql_numeric_chars:
  assumes "sql_numeric s = Some v"
  shows "list_all numeric_char s"
proof -
  obtain sgn z2 where s1: "split_sign (dropWhile is_space s) = (sgn, z2)"
    by (cases "split_sign (dropWhile is_space s)")
  obtain fp z4 where s2: "split_fraction (dropWhile is_digit z2) = (fp, z4)"
    by (cases "split_fraction (dropWhile is_digit z2)")
  obtain ex z5 where s3: "split_exponent z4 = (ex, z5)"
    by (cases "split_exponent z4")
  from assms s1 s2 s3 obtain e where e: "ex = Some e" and z: "dropWhile is_space z5 = []"
    by (auto simp: sql_numeric_def Let_def split: option.splits if_splits)
  have "list_all numeric_char (dropWhile is_space z5)" unfolding z by simp
  then have "list_all numeric_char z5" by (rule drop_spaces_chars)
  from split_exponent_chars [OF s3 [unfolded e] this] have "list_all numeric_char z4" .
  from split_fraction_chars [OF s2 this] have "list_all numeric_char (dropWhile is_digit z2)" .
  then have "list_all numeric_char z2" by (rule drop_digits_chars)
  from split_sign_chars [OF s1 this] have "list_all numeric_char (dropWhile is_space s)" .
  then show ?thesis by (rule drop_spaces_chars)
qed

lemma MessageExists_not_numeric:
  assumes "\<exists>c \<in> set messageID. \<not> numeric_char c"
  shows "\<not> MessageExists db messageID"
proof -
  have "sql_numeric messageID = None"
  proof (cases "sql_numeric messageID")
    case (Some v)
    from sql_numeric_chars [OF this] assms show ?thesis by (auto simp: list_all_iff)
  qed simp
  then show ?thesis by (simp add: MessageExists_def text_as_integer_def)
qed

text \<open>
  Texts that read as an integer, and texts that do not. A UUID does not, even when all
  its hexadecimal digits are decimal: a number has no hyphen after a digit.
\<close>

lemma text_as_integer_examples:
  "text_as_integer ''1'' = Some 1" "text_as_integer ''1.0'' = Some 1"
  "text_as_integer '' 1'' = Some 1" "text_as_integer ''1 '' = Some 1"
  "text_as_integer ''1e0'' = Some 1" "text_as_integer ''-12'' = Some (-12)"
  "text_as_integer ''1.5'' = None" "text_as_integer ''15e-1'' = None" "text_as_integer ''150e-1'' = Some 15"
  "text_as_integer ''1e'' = None" "text_as_integer ''.'' = None" "text_as_integer ''5.'' = Some 5"
  "text_as_integer ''.5e1'' = Some 5" "text_as_integer ''12345678-1234-1234-1234-123456789012'' = None"
  "text_as_integer '''' = None" "text_as_integer ''1 2'' = None" "text_as_integer ''+-1'' = None"
  by (simp_all add: text_as_integer_def sql_numeric_def split_sign_def split_fraction_def
      split_exponent_def is_space_def is_digit_def digits_value_def digit_value_def Let_def)

text \<open>
  And the check answers yes for a message that was never stored when its ID reads as the
  rowid of some stored row: here a first message with ID \<open>1\<close> arrives after \<open>msgA\<close>
  took rowid 1, and is dropped.
\<close>

lemma ProcessMessage_numeric_id_dropped:
  "(case ProcessMessage w 5 msgA ''10.0.0.2:40000'' node0 of
      Stopped s evs n \<Rightarrow> False
    | Returned r1 evs1 n1 \<Rightarrow>
        (case ProcessMessage w 6 (msgA\<lparr>ID := ''1''\<rparr>) ''10.0.0.2:40000'' n1 of
           Stopped s evs n \<Rightarrow> False
         | Returned r2 evs2 n2 \<Rightarrow>
             evs2 = [] \<and> map m_message_id (messages_tbl (node_db n2)) = [ID msgA]))"
  by (simp add: ProcessMessage_def MessageExists_def text_as_integer_def sql_numeric_def
      split_sign_def split_fraction_def split_exponent_def is_space_def is_digit_def
      digits_value_def digit_value_def SaveMessage_def db_SaveMessage_def next_rowid_def
      msgA_def node0_def Let_def)

text \<open>
  Claim C1 on the code. The encrypted message \<open>msgA\<close> from peer B arrives twice. The
  first arrival stores it. At the second arrival the duplicate check answers no (it
  compares the ID with the rowid), so the message is not dropped: the store write is
  attempted and fails on the \<open>UNIQUE\<close> constraint of \<open>message_id\<close>, which is what
  keeps the store at one row, and the \<open>message\<close> event is published a second time.
\<close>

theorem ProcessMessage_duplicate_not_dropped:
  "(case ProcessMessage w 5 msgA ''10.0.0.2:40000'' node0 of
      Stopped s evs n \<Rightarrow> False
    | Returned r1 evs1 n1 \<Rightarrow>
        (case ProcessMessage w 6 msgA ''10.0.0.2:40000'' n1 of
           Stopped s evs n \<Rightarrow> False
         | Returned r2 evs2 n2 \<Rightarrow>
             map m_message_id (messages_tbl (node_db n1)) = [ID msgA]
           \<and> \<not> MessageExists (node_db n1) (ID msgA)
           \<and> fst (SaveMessage (node_db n1) msgA ''10.0.0.2:40000'') = Some UniqueViolation
           \<and> evs2 = [(''message'', WebMessageContent msgA)]
           \<and> count_type ''message'' (evs1 @ evs2) = 2
           \<and> length (messages_tbl (node_db n2)) = 1))"
  by (simp add: ProcessMessage_def MessageExists_def text_as_integer_def sql_numeric_def
      split_sign_def split_fraction_def split_exponent_def is_space_def is_digit_def
      digits_value_def digit_value_def SaveMessage_def db_SaveMessage_def next_rowid_def
      msgA_def node0_def count_type_def Let_def)

subsection \<open>The final event of a broadcast\<close>

text \<open>
  A delivery to a peer whose GUID has at least 8 bytes returns: the only panic on the
  way is that of \<open>SavePeer\<close>, which needs a shorter GUID. The loop publishes no
  \<open>delivery_final\<close>, leaves the total and the summary alone, and adds one status and
  one to either \<open>Succeeded\<close> or \<open>Failed\<close> per target.
\<close>

lemma handleDeliveryFailure_no_final:
  "count_type ''delivery_final'' (fst (handleDeliveryFailure now p st n)) = 0"
  by (simp add: handleDeliveryFailure_def evict_peer_def count_type_def Let_def)

lemma SavePeer_no_panic:
  "8 \<le> length g \<Longrightarrow> SavePeer now g ip port key name db \<noteq> Inl SliceBoundsPanic"
  by (auto simp: SavePeer_def Let_def)

lemma Service_GetPeerPublicKey_returns:
  assumes "8 \<le> length (dGUID p)"
  shows "\<exists>k n'. Service_GetPeerPublicKey w now s msg p n = Returned k [] n'"
proof (cases "w_whoami w msg p")
  case (WhoamiFailed e)
  then show ?thesis by (simp add: Service_GetPeerPublicKey_def)
next
  case (WhoamiInfo g key name)
  show ?thesis
  proof (cases "g = dGUID p")
    case False
    with WhoamiInfo show ?thesis by (simp add: Service_GetPeerPublicKey_def)
  next
    case True
    let ?n1 = "(case map_of (service_peers s n) (dGUID p) of
                         None \<Rightarrow> n
                       | Some p' \<Rightarrow>
                           set_service_peers s
                             (AList.update (dGUID p)
                                (p'\<lparr>dName := name,
                                   dPublicKey := (case key of None \<Rightarrow> [] | Some k \<Rightarrow> k)\<rparr>)
                                (service_peers s n)) n)"
    let ?sp = "SavePeer now (dGUID p) (IP_String w (dIP p)) (dPort p) key name (node_db ?n1)"
    from SavePeer_no_panic [OF assms] have np: "?sp \<noteq> Inl SliceBoundsPanic" .
    show ?thesis
    proof (cases ?sp)
      case (Inl e)
      with np have "e \<noteq> SliceBoundsPanic" by auto
      with Inl WhoamiInfo True show ?thesis
        by (cases e) (simp_all add: Service_GetPeerPublicKey_def Let_def)
    next
      case (Inr db')
      with WhoamiInfo True show ?thesis
        by (simp add: Service_GetPeerPublicKey_def Let_def)
    qed
  qed
qed

lemma delivery_failed_returns:
  "\<exists>st evs n'. delivery_failed now p status e n = Returned st evs n'
      \<and> count_type ''delivery_final'' evs = 0"
proof -
  obtain evs n' where h: "handleDeliveryFailure now p (status\<lparr>Success := False, Error := e\<rparr>) n
      = (evs, n')"
    by (cases "handleDeliveryFailure now p (status\<lparr>Success := False, Error := e\<rparr>) n")
  with handleDeliveryFailure_no_final [of now p "status\<lparr>Success := False, Error := e\<rparr>" n]
  show ?thesis by (simp add: delivery_failed_def)
qed

lemma ForwardMessageToPeer_returns:
  assumes "8 \<le> length (dGUID p)"
  shows "\<exists>st evs n'. ForwardMessageToPeer w now msg p n = Returned st evs n'
      \<and> count_type ''delivery_final'' evs = 0"
proof -
  from Service_GetPeerPublicKey_returns [OF assms] obtain k n1 where
    k: "Service_GetPeerPublicKey w now HandlerService msg p n = Returned k [] n1" by blast
  show ?thesis
  proof (cases k)
    case (KeyError e)
    with k delivery_failed_returns show ?thesis
      by (simp add: ForwardMessageToPeer_def)
  next
    case (KeyFetched key)
    show ?thesis
    proof (cases "send_error (w_send w msg p)")
      case None
      with k KeyFetched show ?thesis
        by (simp add: ForwardMessageToPeer_def count_type_def)
    next
      case (Some e)
      with k KeyFetched delivery_failed_returns show ?thesis
        by (simp add: ForwardMessageToPeer_def)
    qed
  qed
qed

lemma count_delivery_counts:
  assumes "count_delivery now p st report n = (report', evs, n')"
  shows "count_type ''delivery_final'' evs = 0
     \<and> TotalPeers report' = TotalPeers report
     \<and> Succeeded report' + Failed report' = Succeeded report + Failed report + 1
     \<and> length (PeerStatuses report') = length (PeerStatuses report) + 1
     \<and> Summary report' = Summary report"
proof (cases "Success st")
  case True
  with assms show ?thesis by (auto simp: count_delivery_def count_type_def)
next
  case False
  obtain e m where h: "handleDeliveryFailure now p st n = (e, m)"
    by (cases "handleDeliveryFailure now p st n")
  with handleDeliveryFailure_no_final [of now p st n] have "count_type ''delivery_final'' e = 0"
    by simp
  with assms False h show ?thesis by (auto simp: count_delivery_def)
qed

lemma broadcast_loop_returns:
  assumes "\<forall>p \<in> set ps. 8 \<le> length (dGUID p)"
  shows "\<exists>report' evs n'. broadcast_loop w now msg ps report n = Returned report' evs n'
     \<and> count_type ''delivery_final'' evs = 0
     \<and> TotalPeers report' = TotalPeers report
     \<and> Succeeded report' + Failed report' = Succeeded report + Failed report + int (length ps)
     \<and> length (PeerStatuses report') = length (PeerStatuses report) + length ps
     \<and> Summary report' = Summary report"
  using assms
proof (induction ps arbitrary: report n)
  case Nil
  then show ?case by (simp add: count_type_def)
next
  case (Cons p ps)
  from Cons.prems have long: "8 \<le> length (dGUID p)" by simp
  from ForwardMessageToPeer_returns [OF long] obtain st evs1 n1 where
    f: "ForwardMessageToPeer w now (msg\<lparr>ReceiverGUID := dGUID p\<rparr>) p n = Returned st evs1 n1"
    and c1: "count_type ''delivery_final'' evs1 = 0" by blast
  obtain r2 evs2 n2 where cd: "count_delivery now p st report n1 = (r2, evs2, n2)"
    by (cases "count_delivery now p st report n1") auto
  note c2 = count_delivery_counts [OF cd]
  from Cons.prems have "\<forall>p \<in> set ps. 8 \<le> length (dGUID p)" by simp
  from Cons.IH [OF this, of r2 n2] obtain r3 evs3 n3 where
    l: "broadcast_loop w now msg ps r2 n2 = Returned r3 evs3 n3"
    and c3: "count_type ''delivery_final'' evs3 = 0" "TotalPeers r3 = TotalPeers r2"
      "Succeeded r3 + Failed r3 = Succeeded r2 + Failed r2 + int (length ps)"
      "length (PeerStatuses r3) = length (PeerStatuses r2) + length ps"
      "Summary r3 = Summary r2"
    by blast
  let ?progress = "(''delivery_progress'',
                  DeliveryProgress (ID msg) (dGUID p) (dName p) (Success st)
                    (Error st) (Succeeded r2) (Failed r2) (TotalPeers r2))"
  have res: "broadcast_loop w now msg (p # ps) report n
      = Returned r3 (evs1 @ evs2 @ [?progress] @ evs3) n3"
    using f cd l by (simp add: prepend_events_def)
  have "count_type ''delivery_final'' (evs1 @ evs2 @ [?progress] @ evs3) = 0"
    using c1 c2 c3(1) by (simp add: count_type_def)
  with res c2 c3 show ?case by simp
qed

lemma deliver_broadcast_empty:
  assumes "broadcast_targets msg n = []"
  shows "deliver_broadcast w now msg report n =
     Returned (report\<lparr>TotalPeers := 0\<rparr>)
      [(''delivery_status'',
        DeliveryStatus (ID msg) ''completed'' ''No peers available for broadcast'')]
      n"
  using assms by (simp add: deliver_broadcast_def broadcast_targets_def)

lemma deliver_broadcast_nonempty:
  assumes "broadcast_targets msg n \<noteq> []"
    and "\<forall>p \<in> set (broadcast_targets msg n). 8 \<le> length (GUID p)"
  shows "\<exists>report' evs n'. deliver_broadcast w now msg report n = Returned report' evs n'
     \<and> count_type ''delivery_final'' evs = 1
     \<and> last evs = (''delivery_final'',
          BroadcastFinal (ID msg) ''completed''
            (final_details w (Succeeded report') (TotalPeers report'))
            (Succeeded report') (Failed report') (TotalPeers report'))
     \<and> TotalPeers report' = int (length (broadcast_targets msg n))
     \<and> Succeeded report' + Failed report'
         = Succeeded report + Failed report + TotalPeers report'
     \<and> length (PeerStatuses report')
         = length (PeerStatuses report) + length (broadcast_targets msg n)
     \<and> Summary report' = Summary report"
proof -
  let ?ps = "map to_dPeer (broadcast_targets msg n)"
  let ?r1 = "report\<lparr>TotalPeers := int (length ?ps)\<rparr>"
  from assms(2) have "\<forall>p \<in> set ?ps. 8 \<le> length (dGUID p)"
    by (simp add: to_dPeer_def)
  from broadcast_loop_returns [OF this, of w now msg ?r1 n] obtain r2 evs2 n2 where
    l: "broadcast_loop w now msg ?ps ?r1 n = Returned r2 evs2 n2"
    and c: "count_type ''delivery_final'' evs2 = 0" "TotalPeers r2 = TotalPeers ?r1"
      "Succeeded r2 + Failed r2 = Succeeded ?r1 + Failed ?r1 + int (length ?ps)"
      "length (PeerStatuses r2) = length (PeerStatuses ?r1) + length ?ps"
      "Summary r2 = Summary ?r1"
    by blast
  let ?evs = "[(''delivery_status'',
                     BroadcastStatus (ID msg) ''broadcasting''
                       (''Broadcasting to '' @ itoa (TotalPeers ?r1) @ '' peers...'')
                       (TotalPeers ?r1))] @ evs2 @
                   [(''delivery_final'',
                     BroadcastFinal (ID msg) ''completed''
                       (final_details w (Succeeded r2) (TotalPeers r2))
                       (Succeeded r2) (Failed r2) (TotalPeers r2))]"
  have res: "deliver_broadcast w now msg report n = Returned r2 ?evs n2"
    using assms(1) l
    by (simp add: deliver_broadcast_def broadcast_targets_def prepend_events_def Let_def)
  have "count_type ''delivery_final'' ?evs = 1"
    using c(1) by (simp add: count_type_def)
  moreover have "last ?evs = (''delivery_final'',
                     BroadcastFinal (ID msg) ''completed''
                       (final_details w (Succeeded r2) (TotalPeers r2))
                       (Succeeded r2) (Failed r2) (TotalPeers r2))"
    by simp
  ultimately show ?thesis using res c by simp
qed

text \<open>The events of the server's own path: the \<open>message\<close> event and nothing else.\<close>

lemma Server_forwardMessageToPeer_silent:
  "events_of (Server_forwardMessageToPeer w now msg p n) = []"
proof (cases "w_whoami w msg p")
  case (WhoamiFailed e)
  then show ?thesis
    by (simp add: Server_forwardMessageToPeer_def Service_GetPeerPublicKey_def events_of_def)
next
  case (WhoamiInfo g key name)
  then show ?thesis
    by (auto simp: Server_forwardMessageToPeer_def Service_GetPeerPublicKey_def events_of_def
        Let_def split: sum.splits db_error.splits)
qed

lemma events_of_prepend: "events_of (prepend_events evs r) = evs @ events_of r"
  by (cases r) (simp_all add: events_of_def prepend_events_def)

lemma server_loop_silent: "events_of (server_loop w now msg ps n) = []"
proof (induction ps arbitrary: n)
  case Nil
  then show ?case by (simp add: events_of_def)
next
  case (Cons p ps)
  show ?case
  proof (cases "dGUID p = SenderGUID msg")
    case True
    with Cons show ?thesis by simp
  next
    case False
    show ?thesis
    proof (cases "Server_forwardMessageToPeer w now (msg\<lparr>ReceiverGUID := dGUID p\<rparr>) p n")
      case (Returned u evs n1)
      with Server_forwardMessageToPeer_silent [of w now "msg\<lparr>ReceiverGUID := dGUID p\<rparr>" p n]
      have "evs = []" by (simp add: events_of_def)
      with Returned False Cons.IH [of n1] show ?thesis by (simp add: events_of_prepend)
    next
      case (Stopped s evs n1)
      with Server_forwardMessageToPeer_silent [of w now "msg\<lparr>ReceiverGUID := dGUID p\<rparr>" p n]
      have "evs = []" by (simp add: events_of_def)
      with Stopped False show ?thesis by (simp add: events_of_def)
    qed
  qed
qed

lemma Server_processMessage_events:
  "events_of (Server_processMessage w now msg sourceIP n) =
     (if fst (SaveMessage (node_db n) msg sourceIP) = None
      then [(''message'', ServerWebMessageContent msg sourceIP (node_port n))] else [])"
proof (cases "SaveMessage (node_db n) msg sourceIP")
  case (Pair err db')
  show ?thesis
  proof (cases err)
    case (Some e)
    with Pair show ?thesis by (simp add: Server_processMessage_def events_of_def)
  next
    case None
    with Pair show ?thesis
      by (auto simp: Server_processMessage_def events_of_prepend server_loop_silent
          Server_forwardMessageToPeer_silent Let_def events_of_def [of "Returned u e m" for u e m]
          split: prod.splits option.splits)
  qed
qed

definition msgL :: Message where
  "msgL = \<lparr>ID = ''9a1c2b3d-0000-4000-8000-000000000001'', SenderGUID = ''me'',
           ReceiverGUID = [], Type = ''text'', Scope = ''broadcast'', Content = ''hello'',
           Timestamp = (11 * minute, 0)\<rparr>"

definition peerC :: Peer where
  "peerC = \<lparr>GUID = ''peer-C-0002'', Port = 7331, Name = ''carol'', IPAddress = ''10.0.0.3'',
            LastSeen = 0\<rparr>"

definition dpeerC :: dPeer where
  "dpeerC = \<lparr>dGUID = ''peer-C-0002'', dPort = 7331, dIP = ''10.0.0.3'', dPublicKey = [],
             dName = ''carol'', dLastSeen = 0\<rparr>"

definition nodeBC :: Node where
  "nodeBC = node0\<lparr>mgr_peers := [(''peer-B-0001'', peerB), (''peer-C-0002'', peerC)],
                  disc_peers := [(''peer-B-0001'', dpeerB), (''peer-C-0002'', dpeerC)]\<rparr>"

definition worldC_down :: world where
  "worldC_down =
     world_up\<lparr>w_send := (\<lambda>m p. if dGUID p = ''peer-C-0002'' then PostError ''timeout''
                               else Accepted202)\<rparr>"

text \<open>The definitions that an evaluation of \<open>ProcessMessage\<close> unfolds.\<close>

lemmas eval_defs =
  ProcessMessage_def MessageExists_def text_as_integer_def sql_numeric_def
  split_sign_def split_fraction_def split_exponent_def is_space_def is_digit_def
  digits_value_def digit_value_def SaveMessage_def db_SaveMessage_def next_rowid_def
  deliver_broadcast_def ForwardMessageToPeer_def delivery_failed_def count_delivery_def
  Service_GetPeerPublicKey_def service_peers_def set_service_peers_def IP_String_def
  SavePeer_def db_GetPeer_def SavePeer_unchanged_def upsert_peer_def sql_length_pos_def
  handleDeliveryFailure_def recently_failed_def evict_peer_def to_dPeer_def
  Manager_GetPeers_def Manager_GetPeer_def Manager_RemoveInactivePeer_def
  Service_RemoveInactivePeer_def prepend_events_def final_details_def summary_text_def
  percent_text_def itoa_def digit_char_def count_type_def Let_def

text \<open>
  Claim C5 as stated fails in two ways. A broadcast submitted through the client API on
  a node without peers publishes the \<open>message\<close> event and two \<open>delivery_status\<close>
  events (processing, then completed with details \<open>No peers available for
  broadcast\<close>), and no \<open>delivery_final\<close>. And a broadcast submitted over a UI
  session, on a node whose discovery service knows two peers that both answer, publishes
  the \<open>message\<close> event and nothing else.
\<close>

theorem ProcessMessage_no_peers_counterexample:
  "(case client_HandleMessage world_up (11 * minute) 0 (ID msgL) ''k''
           \<lparr>RemoteAddr = ''127.0.0.1:50000'', Header = [(''X-Client-API-Key'', ''k'')],
            URL_Query = []\<rparr>
           (Some \<lparr>sub_Type = ''text'', sub_Content = ''hello'', sub_ReceiverGUID = [],
                  sub_Scope = ''broadcast''\<rparr>) node0 of
      Stopped s evs n \<Rightarrow> False
    | Returned answer evs n' \<Rightarrow>
        (case answer of
           HttpAccepted report \<Rightarrow>
             count_type ''delivery_final'' evs = 0
           \<and> map fst evs = [''message'', ''delivery_status'', ''delivery_status'']
           \<and> last evs = (''delivery_status'',
                DeliveryStatus (ID msgL) ''completed'' ''No peers available for broadcast'')
           \<and> TotalPeers report = 0
         | _ \<Rightarrow> False))
   \<and> map fst (events_of
        (readPump_message world_up (11 * minute) 0 (ID msgL)
           \<lparr>remoteAddr = ''127.0.0.1:50000'', conn_id = ''id-1''\<rparr>
           \<lparr>sub_Type = ''text'', sub_Content = ''hello'', sub_ReceiverGUID = [],
            sub_Scope = ''broadcast''\<rparr> nodeBC)) = [''message'']"
proof -
  have sp: "SplitHostPort ''127.0.0.1:50000'' = Some (''127.0.0.1'', ''50000'')"
    using SplitHostPort_JoinHostPort [of "''127.0.0.1''" "''50000''"]
    by (simp add: JoinHostPort_def)
  have one: "client_HandleMessage world_up (11 * minute) 0 (ID msgL) ''k''
           \<lparr>RemoteAddr = ''127.0.0.1:50000'', Header = [(''X-Client-API-Key'', ''k'')],
            URL_Query = []\<rparr>
           (Some \<lparr>sub_Type = ''text'', sub_Content = ''hello'', sub_ReceiverGUID = [],
                  sub_Scope = ''broadcast''\<rparr>) node0
      = Returned
          (HttpAccepted \<lparr>MessageID = ID msgL, TotalPeers = 0, Succeeded = 0, Failed = 0,
             DeliveryTime = 11 * minute, PeerStatuses = [], Summary = []\<rparr>)
          [(''message'', WebMessageContent (msgL\<lparr>Timestamp := (11 * minute, 0)\<rparr>)),
           (''delivery_status'',
            DeliveryStatus (ID msgL) ''processing'' ''Starting message delivery...''),
           (''delivery_status'',
            DeliveryStatus (ID msgL) ''completed'' ''No peers available for broadcast'')]
          (node0\<lparr>node_db := snd (SaveMessage (node_db node0) msgL ''127.0.0.1:50000'')\<rparr>)"
    using sp
    by (simp add: client_HandleMessage_def NewWebMessage_def verifyClient_def verifyAPIKey_def
        verifyClientIP_def client_ip_def Header_Get_def host_of_def is_localhost_def
        ProcessMessage_def MessageExists_def text_as_integer_def sql_numeric_def
        split_sign_def split_fraction_def split_exponent_def is_space_def is_digit_def
        digits_value_def digit_value_def msgL_def node0_def SaveMessage_def db_SaveMessage_def
        deliver_broadcast_def Manager_GetPeers_def prepend_events_def Let_def)
  have two: "map fst (events_of
        (readPump_message world_up (11 * minute) 0 (ID msgL)
           \<lparr>remoteAddr = ''127.0.0.1:50000'', conn_id = ''id-1''\<rparr>
           \<lparr>sub_Type = ''text'', sub_Content = ''hello'', sub_ReceiverGUID = [],
            sub_Scope = ''broadcast''\<rparr> nodeBC)) = [''message'']"
    by (simp add: readPump_message_def Server_processMessage_events SaveMessage_def
        db_SaveMessage_def nodeBC_def node0_def msgL_def)
  show ?thesis unfolding one using two by (simp add: count_type_def)
qed

text \<open>
  Claim C5, amended. Take a broadcast message of this node that reaches
  \<open>Handler.ProcessMessage\<close>, that the duplicate check lets through, and whose targets,
  the peers of the Peer Manager other than the sender, all have GUIDs of at least 8
  bytes. The call returns a report whose total is the number of targets, with succeeded
  and failed adding up to the total and one status per target. With at least one target,
  exactly one \<open>delivery_final\<close> event is published; it is the last event and carries
  the report's counts and the text of the counts, and the report's summary is the text
  of the same counts. With no target, no \<open>delivery_final\<close> is published: the last
  event is a \<open>delivery_status\<close> with status \<open>completed\<close> and details
  \<open>No peers available for broadcast\<close>, and the summary is empty. This is what a
  submission of scope broadcast to \<open>POST /api/v1/client/message\<close> results in, with
  the report in the body of the answer. A message submitted over a UI session goes to
  \<open>Server.processMessage\<close> instead, which publishes the \<open>message\<close> event at most
  and no \<open>delivery_status\<close>, \<open>delivery_progress\<close> or \<open>delivery_final\<close>.
\<close>

theorem ProcessMessage_broadcast_final:
  "(SenderGUID msg = node_guid n \<and> Scope msg = ''broadcast''
      \<and> \<not> MessageExists (node_db n) (ID msg)
      \<and> (\<forall>p \<in> set (broadcast_targets msg n). 8 \<le> length (GUID p)) \<longrightarrow>
    (\<exists>report evs n'.
        ProcessMessage w now msg sourceIP n = Returned report evs n'
      \<and> TotalPeers report = int (length (broadcast_targets msg n))
      \<and> Succeeded report + Failed report = TotalPeers report
      \<and> length (PeerStatuses report) = length (broadcast_targets msg n)
      \<and> (broadcast_targets msg n = [] \<longrightarrow>
            count_type ''delivery_final'' evs = 0
          \<and> last evs = (''delivery_status'',
               DeliveryStatus (ID msg) ''completed'' ''No peers available for broadcast'')
          \<and> Summary report = [])
      \<and> (broadcast_targets msg n \<noteq> [] \<longrightarrow>
            count_type ''delivery_final'' evs = 1
          \<and> last evs = (''delivery_final'',
               BroadcastFinal (ID msg) ''completed''
                 (final_details w (Succeeded report) (TotalPeers report))
                 (Succeeded report) (Failed report) (TotalPeers report))
          \<and> Summary report = summary_text w (Succeeded report) (TotalPeers report))))
   \<and> (verifyClient \<lparr>h_db = node_db n, h_guid = node_guid n, h_clientAPIKey = key\<rparr> r
      \<and> sub_Scope content = ''broadcast'' \<and> \<not> MessageExists (node_db n) uuid
      \<and> (\<forall>p \<in> set (Manager_GetPeers n). GUID p \<noteq> node_guid n \<longrightarrow> 8 \<le> length (GUID p)) \<longrightarrow>
    (\<exists>report evs n'.
        client_HandleMessage w now zone uuid key r (Some content) n
          = Returned (HttpAccepted report) evs n'
      \<and> TotalPeers report
          = int (length (filter (\<lambda>p. GUID p \<noteq> node_guid n) (Manager_GetPeers n)))
      \<and> Succeeded report + Failed report = TotalPeers report
      \<and> count_type ''delivery_final'' evs = (if TotalPeers report = 0 then 0 else 1)))
   \<and> set (map fst (events_of (Server_processMessage w now msg sourceIP n))) \<subseteq> {''message''}
   \<and> set (map fst (events_of (readPump_message w now zone uuid c content n))) \<subseteq> {''message''}"
proof -
  have main: "\<exists>report evs n'.
        ProcessMessage w now msg sourceIP n = Returned report evs n'
      \<and> TotalPeers report = int (length (broadcast_targets msg n))
      \<and> Succeeded report + Failed report = TotalPeers report
      \<and> length (PeerStatuses report) = length (broadcast_targets msg n)
      \<and> (broadcast_targets msg n = [] \<longrightarrow>
            count_type ''delivery_final'' evs = 0
          \<and> last evs = (''delivery_status'',
               DeliveryStatus (ID msg) ''completed'' ''No peers available for broadcast'')
          \<and> Summary report = [])
      \<and> (broadcast_targets msg n \<noteq> [] \<longrightarrow>
            count_type ''delivery_final'' evs = 1
          \<and> last evs = (''delivery_final'',
               BroadcastFinal (ID msg) ''completed''
                 (final_details w (Succeeded report) (TotalPeers report))
                 (Succeeded report) (Failed report) (TotalPeers report))
          \<and> Summary report = summary_text w (Succeeded report) (TotalPeers report))"
    if a: "SenderGUID msg = node_guid n \<and> Scope msg = ''broadcast''
      \<and> \<not> MessageExists (node_db n) (ID msg)
      \<and> (\<forall>p \<in> set (broadcast_targets msg n). 8 \<le> length (GUID p))"
    for msg :: Message and sourceIP
  proof -
    let ?r0 = "\<lparr>MessageID = ID msg, TotalPeers = 0, Succeeded = 0, Failed = 0,
                       DeliveryTime = now, PeerStatuses = [], Summary = []\<rparr>"
    let ?n1 = "n\<lparr>node_db := snd (SaveMessage (node_db n) msg sourceIP)\<rparr>"
    let ?head = "[(''message'', WebMessageContent msg),
                            (''delivery_status'',
                             DeliveryStatus (ID msg) ''processing''
                               ''Starting message delivery...'')]"
    have t: "broadcast_targets msg ?n1 = broadcast_targets msg n"
      by (simp add: broadcast_targets_def Manager_GetPeers_def)
    have pm: "ProcessMessage w now msg sourceIP n =
        (case prepend_events ?head (deliver_broadcast w now msg ?r0 ?n1) of
           Stopped s evs n2 \<Rightarrow> Stopped s evs n2
         | Returned report1 evs n2 \<Rightarrow>
             Returned
               (if TotalPeers report1 > 0
                then report1\<lparr>Summary := summary_text w (Succeeded report1) (TotalPeers report1)\<rparr>
                else report1)
               evs n2)"
      using a by (simp add: ProcessMessage_def Let_def)
    show ?thesis
    proof (cases "broadcast_targets msg n = []")
      case True
      with t have "broadcast_targets msg ?n1 = []" by simp
      from deliver_broadcast_empty [OF this, of w now ?r0] True show ?thesis
        unfolding pm by (simp add: prepend_events_def count_type_def)
    next
      case False
      with t have ne: "broadcast_targets msg ?n1 \<noteq> []" by simp
      from a t have long: "\<forall>p \<in> set (broadcast_targets msg ?n1). 8 \<le> length (GUID p)" by simp
      from deliver_broadcast_nonempty [OF ne long, of w now ?r0] obtain r evs' n2 where
        d: "deliver_broadcast w now msg ?r0 ?n1 = Returned r evs' n2"
        and c: "count_type ''delivery_final'' evs' = 1"
          "last evs' = (''delivery_final'',
            BroadcastFinal (ID msg) ''completed'' (final_details w (Succeeded r) (TotalPeers r))
              (Succeeded r) (Failed r) (TotalPeers r))"
          "TotalPeers r = int (length (broadcast_targets msg ?n1))"
          "Succeeded r + Failed r = Succeeded ?r0 + Failed ?r0 + TotalPeers r"
          "length (PeerStatuses r) = length (PeerStatuses ?r0) + length (broadcast_targets msg ?n1)"
        by blast
      from c(1) have nonempty: "evs' \<noteq> []" by (auto simp: count_type_def)
      from False c(3) t have pos: "TotalPeers r > 0" by simp
      have "count_type ''delivery_final'' (?head @ evs') = 1"
        using c(1) by (simp add: count_type_def)
      moreover have "last (?head @ evs') = last evs'" using nonempty by simp
      ultimately show ?thesis
        unfolding pm d using False c t pos by (simp add: prepend_events_def)
    qed
  qed
  show ?thesis
  proof (intro conjI impI)
    assume "SenderGUID msg = node_guid n \<and> Scope msg = ''broadcast''
      \<and> \<not> MessageExists (node_db n) (ID msg)
      \<and> (\<forall>p \<in> set (broadcast_targets msg n). 8 \<le> length (GUID p))"
    then show "\<exists>report evs n'.
        ProcessMessage w now msg sourceIP n = Returned report evs n'
      \<and> TotalPeers report = int (length (broadcast_targets msg n))
      \<and> Succeeded report + Failed report = TotalPeers report
      \<and> length (PeerStatuses report) = length (broadcast_targets msg n)
      \<and> (broadcast_targets msg n = [] \<longrightarrow>
            count_type ''delivery_final'' evs = 0
          \<and> last evs = (''delivery_status'',
               DeliveryStatus (ID msg) ''completed'' ''No peers available for broadcast'')
          \<and> Summary report = [])
      \<and> (broadcast_targets msg n \<noteq> [] \<longrightarrow>
            count_type ''delivery_final'' evs = 1
          \<and> last evs = (''delivery_final'',
               BroadcastFinal (ID msg) ''completed''
                 (final_details w (Succeeded report) (TotalPeers report))
                 (Succeeded report) (Failed report) (TotalPeers report))
          \<and> Summary report = summary_text w (Succeeded report) (TotalPeers report))"
      by (rule main)
  next
    let ?m = "(NewWebMessage uuid (now, zone) (node_guid n) (sub_ReceiverGUID content)
                 (sub_Type content) (sub_Content content))\<lparr>Scope := sub_Scope content\<rparr>"
    assume b: "verifyClient \<lparr>h_db = node_db n, h_guid = node_guid n, h_clientAPIKey = key\<rparr> r
      \<and> sub_Scope content = ''broadcast'' \<and> \<not> MessageExists (node_db n) uuid
      \<and> (\<forall>p \<in> set (Manager_GetPeers n). GUID p \<noteq> node_guid n \<longrightarrow> 8 \<le> length (GUID p))"
    have tg: "broadcast_targets ?m n = filter (\<lambda>p. GUID p \<noteq> node_guid n) (Manager_GetPeers n)"
      by (simp add: broadcast_targets_def NewWebMessage_def)
    from b have "SenderGUID ?m = node_guid n \<and> Scope ?m = ''broadcast''
      \<and> \<not> MessageExists (node_db n) (ID ?m)
      \<and> (\<forall>p \<in> set (broadcast_targets ?m n). 8 \<le> length (GUID p))"
      unfolding tg by (simp add: NewWebMessage_def)
    from main [OF this, of "client_ip r"] obtain report evs n' where
      pm: "ProcessMessage w now ?m (client_ip r) n = Returned report evs n'"
      and c: "TotalPeers report = int (length (broadcast_targets ?m n))"
        "Succeeded report + Failed report = TotalPeers report"
        "broadcast_targets ?m n = [] \<longrightarrow> count_type ''delivery_final'' evs = 0"
        "broadcast_targets ?m n \<noteq> [] \<longrightarrow> count_type ''delivery_final'' evs = 1"
      by blast
    have "client_HandleMessage w now zone uuid key r (Some content) n
          = Returned (HttpAccepted report) evs n'"
      using b pm by (simp add: client_HandleMessage_def)
    moreover have "count_type ''delivery_final'' evs = (if TotalPeers report = 0 then 0 else 1)"
      using c by auto
    ultimately show "\<exists>report evs n'.
        client_HandleMessage w now zone uuid key r (Some content) n
          = Returned (HttpAccepted report) evs n'
      \<and> TotalPeers report
          = int (length (filter (\<lambda>p. GUID p \<noteq> node_guid n) (Manager_GetPeers n)))
      \<and> Succeeded report + Failed report = TotalPeers report
      \<and> count_type ''delivery_final'' evs = (if TotalPeers report = 0 then 0 else 1)"
      using c tg by auto
  next
    show "set (map fst (events_of (Server_processMessage w now msg sourceIP n))) \<subseteq> {''message''}"
      by (auto simp: Server_processMessage_events)
    show "set (map fst (events_of (readPump_message w now zone uuid c content n)))
        \<subseteq> {''message''}"
      by (auto simp: readPump_message_def Server_processMessage_events)
  qed
qed

theorem ProcessMessage_broadcast_final_witness:
  "(\<exists>report evs n'.
       ProcessMessage worldC_down (11 * minute) msgL ''127.0.0.1:50000'' nodeBC
         = Returned report evs n'
     \<and> TotalPeers report = 2 \<and> Succeeded report + Failed report = 2
     \<and> count_type ''delivery_final'' evs = 1
     \<and> last evs = (''delivery_final'',
           BroadcastFinal (ID msgL) ''completed''
             (final_details worldC_down (Succeeded report) 2)
             (Succeeded report) (Failed report) 2)
     \<and> Summary report = summary_text worldC_down (Succeeded report) 2)
   \<and> (\<exists>report evs n'.
        client_HandleMessage worldC_down (11 * minute) 0 (ID msgL) ''k''
          \<lparr>RemoteAddr = ''127.0.0.1:50000'', Header = [(''X-Client-API-Key'', ''k'')],
           URL_Query = []\<rparr>
          (Some \<lparr>sub_Type = ''text'', sub_Content = ''hello'', sub_ReceiverGUID = [],
                 sub_Scope = ''broadcast''\<rparr>) nodeBC
          = Returned (HttpAccepted report) evs n'
      \<and> TotalPeers report = 2 \<and> count_type ''delivery_final'' evs = 1)
   \<and> set (map fst (events_of
        (readPump_message worldC_down (11 * minute) 0 (ID msgL)
           \<lparr>remoteAddr = ''127.0.0.1:50000'', conn_id = ''id-1''\<rparr>
           \<lparr>sub_Type = ''text'', sub_Content = ''hello'', sub_ReceiverGUID = [],
            sub_Scope = ''broadcast''\<rparr> nodeBC))) \<subseteq> {''message''}"
proof -
  let ?r = "\<lparr>RemoteAddr = ''127.0.0.1:50000'', Header = [(''X-Client-API-Key'', ''k'')],
           URL_Query = []\<rparr>"
  have t: "broadcast_targets msgL nodeBC = [peerB, peerC]"
    by (simp add: broadcast_targets_def Manager_GetPeers_def nodeBC_def node0_def msgL_def
        peerB_def peerC_def)
  have ne: "\<not> MessageExists (node_db nodeBC) (ID msgL)"
    by (simp add: msgL_def MessageExists_def text_as_integer_def sql_numeric_def split_sign_def
        split_fraction_def split_exponent_def is_space_def is_digit_def Let_def)
  have a: "SenderGUID msgL = node_guid nodeBC \<and> Scope msgL = ''broadcast''
      \<and> \<not> MessageExists (node_db nodeBC) (ID msgL)
      \<and> (\<forall>p \<in> set (broadcast_targets msgL nodeBC). 8 \<le> length (GUID p))"
    unfolding t using ne
    by (simp add: msgL_def nodeBC_def node0_def peerB_def peerC_def)
  have sp: "SplitHostPort ''127.0.0.1:50000'' = Some (''127.0.0.1'', ''50000'')"
    using SplitHostPort_JoinHostPort [of "''127.0.0.1''" "''50000''"]
    by (simp add: JoinHostPort_def)
  have b: "verifyClient \<lparr>h_db = node_db nodeBC, h_guid = node_guid nodeBC, h_clientAPIKey = ''k''\<rparr> ?r
      \<and> sub_Scope \<lparr>sub_Type = ''text'', sub_Content = ''hello'', sub_ReceiverGUID = [],
                    sub_Scope = ''broadcast''\<rparr> = ''broadcast''
      \<and> \<not> MessageExists (node_db nodeBC) (ID msgL)
      \<and> (\<forall>p \<in> set (Manager_GetPeers nodeBC). GUID p \<noteq> node_guid nodeBC \<longrightarrow> 8 \<le> length (GUID p))"
    using sp ne
    by (simp add: verifyClient_def verifyAPIKey_def verifyClientIP_def client_ip_def
        Header_Get_def host_of_def is_localhost_def Manager_GetPeers_def nodeBC_def node0_def
        peerB_def peerC_def)
  have n2: "length (filter (\<lambda>p. GUID p \<noteq> node_guid nodeBC) (Manager_GetPeers nodeBC)) = 2"
    by (simp add: Manager_GetPeers_def nodeBC_def node0_def peerB_def peerC_def)
  from ProcessMessage_broadcast_final [of msgL nodeBC worldC_down "11 * minute"
      "''127.0.0.1:50000''" "''k''" ?r
      "\<lparr>sub_Type = ''text'', sub_Content = ''hello'', sub_ReceiverGUID = [],
            sub_Scope = ''broadcast''\<rparr>" "ID msgL" 0
      "\<lparr>remoteAddr = ''127.0.0.1:50000'', conn_id = ''id-1''\<rparr>"] a b t n2
  show ?thesis by auto
qed

text \<open>
  A broadcast to two peers of which one is down (each failed delivery reaches
  \<open>handleDeliveryFailure\<close> twice, from \<open>ForwardMessageToPeer\<close> and from the loop):
  two targets, one success, one failure, one \<open>peer_offline\<close> event, the final event
  and the summary with the counts 1 of 2, and the dead peer gone from the Peer Manager.
\<close>

lemma ProcessMessage_one_dead_peer:
  "(case ProcessMessage worldC_down (11 * minute) msgL ''127.0.0.1:50000'' nodeBC of
      Stopped s evs n \<Rightarrow> False
    | Returned report evs n' \<Rightarrow>
        (TotalPeers report, Succeeded report, Failed report) = (2, 1, 1)
      \<and> count_type ''peer_offline'' evs = 1
      \<and> count_type ''delivery_progress'' evs = 2
      \<and> last evs = (''delivery_final'',
           BroadcastFinal (ID msgL) ''completed'' ''Delivery complete: 1/2 successful (50.0%)''
             1 1 2)
      \<and> Summary report = ''Delivered to 1/2 peers (50.0% success)''
      \<and> Manager_GetPeers n' = [peerB])"
  by (simp add: eval_defs msgL_def nodeBC_def node0_def peerB_def peerC_def worldC_down_def
      world_up_def second_def)

text \<open>
  A fan-out that panics: the only target has a GUID of two bytes and its node reports
  an empty name, so \<open>SavePeer\<close> takes \<open>guid[:8]\<close>. The call stops after the
  \<open>broadcasting\<close> status, with no \<open>delivery_final\<close>.
\<close>

lemma ProcessMessage_short_guid_panics:
  "ProcessMessage (world_up\<lparr>w_whoami := (\<lambda>m p. WhoamiInfo (dGUID p) None [])\<rparr>) (11 * minute)
      msgL ''127.0.0.1:50000''
      (node0\<lparr>mgr_peers := [(''p1'', \<lparr>GUID = ''p1'', Port = 7331, Name = ''x'',
                                        IPAddress = ''10.0.0.9'', LastSeen = 0\<rparr>)]\<rparr>)
   = Stopped GoPanic
       [(''message'', WebMessageContent msgL),
        (''delivery_status'',
         DeliveryStatus (ID msgL) ''processing'' ''Starting message delivery...''),
        (''delivery_status'',
         BroadcastStatus (ID msgL) ''broadcasting'' ''Broadcasting to 1 peers...'' 1)]
       (node0\<lparr>mgr_peers := [(''p1'', \<lparr>GUID = ''p1'', Port = 7331, Name = ''x'',
                                        IPAddress = ''10.0.0.9'', LastSeen = 0\<rparr>)],
              node_db := snd (SaveMessage (node_db node0) msgL ''127.0.0.1:50000'')\<rparr>)"
  by (simp add: eval_defs msgL_def node0_def world_up_def)

subsection \<open>Stale peers as fan-out targets\<close>

text \<open>
  Claim C2 on the code. Peer B is merged into the Peer Manager at clock reading 0
  (\<open>HandleUpdate\<close>) and nothing more is heard of it. Eleven minutes later \<open>GetPeers\<close>
  still returns B, now older than \<open>activePeerTimeout\<close>: the Manager never removes an
  entry for its age. The sibling query \<open>GetPeersLastSeenAfter\<close> with the cutoff that
  \<open>HandleGetPeers\<close> uses leaves B out, but \<open>ProcessMessage\<close> takes its targets from
  \<open>GetPeers\<close>, so a broadcast at that time is sent to B.
\<close>

theorem Manager_GetPeers_stale_peer:
  "(case Manager_HandleUpdate 0 True peerB node0 of
      Inl e \<Rightarrow> False
    | Inr (evs, n1) \<Rightarrow>
        Manager_GetPeers n1 = [peerB]
      \<and> 11 * minute - LastSeen (hd (Manager_GetPeers n1)) > activePeerTimeout
      \<and> Manager_GetPeersLastSeenAfter n1 (11 * minute - activePeerTimeout) = []
      \<and> (case ProcessMessage world_up (11 * minute) msgL ''127.0.0.1:50000'' n1 of
            Stopped s evs' n' \<Rightarrow> False
          | Returned report evs' n' \<Rightarrow>
              map PeerGUID (PeerStatuses report) = [''peer-B-0001'']))"
  by (simp add: Manager_HandleUpdate_def peerB_def node0_def Manager_GetPeersLastSeenAfter_def
      activePeerTimeout_def minute_def second_def eval_defs msgL_def world_up_def)

section \<open>Message encryption (package messages)\<close>

text \<open>
  \<open>messages.EncryptedMessage\<close>, the wire form, and the RSA keys of \<open>crypto/rsa\<close>
  (a public key is a modulus and an exponent; of a private key the model keeps the
  public part and the private exponent).
\<close>

record EncryptedMessage =
  eID :: string
  eSenderGUID :: string
  eReceiverGUID :: string
  eType :: string
  eScope :: string
  eContent :: string
  eTimestamp :: ztime

record PublicKey =
  pub_N :: nat
  pub_E :: nat

record PrivateKey =
  priv_pub :: PublicKey
  priv_D :: nat

text \<open>\<open>PublicKey.Size\<close>: the length of the modulus in bytes.\<close>

fun bit_length :: "nat \<Rightarrow> nat" where
  "bit_length n = (if n = 0 then 0 else Suc (bit_length (n div 2)))"

declare bit_length.simps [simp del]

definition Size :: "PublicKey \<Rightarrow> nat" where
  "Size pub = (bit_length (pub_N pub) + 7) div 8"

datatype crypto_error = ErrMessageTooLong | ErrDecryption | CorruptInputError

text \<open>
  The library functions that \<open>Encrypt\<close> and \<open>Decrypt\<close> call are parameters of the
  model, collected in a record: \<open>oaep_seal pub seed msg label\<close> is the OAEP padding
  (with SHA-256 and the random seed read from \<open>rand.Reader\<close>) followed by the RSA
  operation, \<open>oaep_open priv ciphertext label\<close> its inverse with \<open>None\<close> for
  \<open>ErrDecryption\<close>, \<open>label_hash\<close> the SHA-256 digest that OAEP puts in the padding in
  place of the label, and \<open>b64_encode\<close>, \<open>b64_decode\<close> are
  \<open>base64.StdEncoding\<close>.
\<close>

record crypto_lib =
  oaep_seal :: "PublicKey \<Rightarrow> string \<Rightarrow> string \<Rightarrow> string \<Rightarrow> string"
  oaep_open :: "PrivateKey \<Rightarrow> string \<Rightarrow> string \<Rightarrow> string option"
  label_hash :: "string \<Rightarrow> string"
  b64_encode :: "string \<Rightarrow> string"
  b64_decode :: "string \<Rightarrow> string option"

text \<open>
  \<open>rsa.EncryptOAEP(sha256.New(), rand.Reader, pub, msg, label)\<close>: before anything
  else it returns \<open>ErrMessageTooLong\<close> when \<open>len(msg) > k - 2*hash.Size() - 2\<close>, where
  \<open>k\<close> is the size of the key in bytes and the hash size of SHA-256 is 32.
\<close>

definition EncryptOAEP ::
  "crypto_lib \<Rightarrow> string \<Rightarrow> PublicKey \<Rightarrow> string \<Rightarrow> string \<Rightarrow> crypto_error + string" where
  "EncryptOAEP lib seed pub msg label =
     (if int (length msg) > int (Size pub) - 2 * 32 - 2 then Inl ErrMessageTooLong
      else Inr (oaep_seal lib pub seed msg label))"

definition DecryptOAEP ::
  "crypto_lib \<Rightarrow> PrivateKey \<Rightarrow> string \<Rightarrow> string \<Rightarrow> crypto_error + string" where
  "DecryptOAEP lib priv ciphertext label =
     (case oaep_open lib priv ciphertext label of
        None \<Rightarrow> Inl ErrDecryption
      | Some plaintext \<Rightarrow> Inr plaintext)"

text \<open>\<open>Message.Encrypt\<close> and \<open>EncryptedMessage.Decrypt\<close>.\<close>

definition Encrypt ::
  "crypto_lib \<Rightarrow> string \<Rightarrow> Message \<Rightarrow> PublicKey \<Rightarrow> crypto_error + EncryptedMessage" where
  "Encrypt lib seed m receiverKey =
     (let label = ID m in
      case EncryptOAEP lib seed receiverKey (Content m) label of
        Inl err \<Rightarrow> Inl err
      | Inr ciphertext \<Rightarrow>
          Inr \<lparr>eID = ID m, eSenderGUID = SenderGUID m, eReceiverGUID = ReceiverGUID m,
               eType = Type m, eScope = Scope m, eContent = b64_encode lib ciphertext,
               eTimestamp = Timestamp m\<rparr>)"

definition Decrypt ::
  "crypto_lib \<Rightarrow> EncryptedMessage \<Rightarrow> PrivateKey \<Rightarrow> crypto_error + Message" where
  "Decrypt lib em privateKey =
     (case b64_decode lib (eContent em) of
        None \<Rightarrow> Inl CorruptInputError
      | Some ciphertext \<Rightarrow>
          (let label = eID em in
           case DecryptOAEP lib privateKey ciphertext label of
             Inl err \<Rightarrow> Inl err
           | Inr plaintext \<Rightarrow>
               Inr \<lparr>ID = eID em, SenderGUID = eSenderGUID em, ReceiverGUID = eReceiverGUID em,
                    Type = eType em, Scope = eScope em, Content = plaintext,
                    Timestamp = eTimestamp em\<rparr>))"

lemma bit_length_bounds: "2 ^ k \<le> n \<Longrightarrow> n < 2 ^ Suc k \<Longrightarrow> bit_length n = Suc k"
proof (induction k arbitrary: n)
  case 0
  then have "n = 1" by simp
  then show ?case by (simp add: bit_length.simps)
next
  case (Suc k)
  then have "2 ^ k \<le> n div 2" "n div 2 < 2 ^ Suc k" by auto
  from Suc.IH [OF this] Suc.prems show ?case
    by (subst bit_length.simps) auto
qed

text \<open>A key of 2048 bits, the length that the server and the key manager generate.\<close>

definition key2048 :: PublicKey where
  "key2048 = \<lparr>pub_N = 2 ^ 2047 + 1, pub_E = 65537\<rparr>"

lemma Size_key2048: "Size key2048 = 256"
proof -
  have "bit_length (2 ^ 2047 + 1) = Suc 2047"
    by (rule bit_length_bounds) simp_all
  then show ?thesis by (simp add: Size_def key2048_def)
qed

text \<open>
  \<open>Encrypt\<close> fails with \<open>ErrMessageTooLong\<close> exactly for the contents longer than the
  key size less 66 bytes: 190 bytes for a key of 2048 bits.
\<close>

lemma Encrypt_too_long_iff:
  "(Encrypt lib seed m pub = Inl ErrMessageTooLong) \<longleftrightarrow> Size pub < length (Content m) + 66"
  by (auto simp: Encrypt_def EncryptOAEP_def Let_def)

definition msg191 :: Message where
  "msg191 = \<lparr>ID = ''9a1c2b3d-0000-4000-8000-000000000002'', SenderGUID = ''me'',
             ReceiverGUID = ''peer-B-0001'', Type = ''text'', Scope = ''private'',
             Content = replicate 191 (CHR ''a''), Timestamp = (0, 0)\<rparr>"

text \<open>
  Claim C4 on the code. A text message of 191 bytes cannot be encrypted for a receiver
  with a 2048-bit key, whatever the library's padding and the random seed: \<open>Encrypt\<close>
  returns the error \<open>ErrMessageTooLong\<close>, so there is no ciphertext to decrypt.
\<close>

theorem Encrypt_content_too_long:
  "Encrypt lib seed msg191 key2048 = Inl ErrMessageTooLong"
  by (simp add: Encrypt_too_long_iff Size_key2048 msg191_def)

text \<open>
  For the contents that fit, the round trip holds given what the library promises:
  opening a sealed message under the same label gives the message back, opening it
  under a label with another digest fails, and decoding undoes encoding.
\<close>

definition lib_contract :: "crypto_lib \<Rightarrow> PublicKey \<Rightarrow> PrivateKey \<Rightarrow> bool" where
  "lib_contract lib pub priv \<longleftrightarrow>
     (\<forall>seed m l. length m + 66 \<le> Size pub \<longrightarrow>
        oaep_open lib priv (oaep_seal lib pub seed m l) l = Some m
        \<and> (\<forall>l'. label_hash lib l' \<noteq> label_hash lib l \<longrightarrow>
              oaep_open lib priv (oaep_seal lib pub seed m l) l' = None))
     \<and> (\<forall>x. b64_decode lib (b64_encode lib x) = Some x)"

lemma Decrypt_Encrypt:
  assumes "lib_contract lib pub priv" and "length (Content m) + 66 \<le> Size pub"
  shows "\<exists>em. Encrypt lib seed m pub = Inr em \<and> Decrypt lib em priv = Inr m
     \<and> (\<forall>id'. label_hash lib id' \<noteq> label_hash lib (ID m) \<longrightarrow>
           Decrypt lib (em\<lparr>eID := id'\<rparr>) priv = Inl ErrDecryption)"
  using assms
  by (auto simp: lib_contract_def Encrypt_def EncryptOAEP_def Decrypt_def DecryptOAEP_def Let_def)

text \<open>The promise is satisfiable: a toy library that keeps it.\<close>

definition toy_lib :: crypto_lib where
  "toy_lib = \<lparr>oaep_seal = (\<lambda>pub seed m l. char_of (length l) # m),
             oaep_open = (\<lambda>priv c l. case c of [] \<Rightarrow> None
                             | h # m \<Rightarrow> if h = char_of (length l) then Some m else None),
             label_hash = (\<lambda>l. [char_of (length l)]),
             b64_encode = (\<lambda>x. x), b64_decode = Some\<rparr>"

lemma toy_lib_contract: "lib_contract toy_lib pub priv"
  by (simp add: lib_contract_def toy_lib_def)

end
